theory Spec2Isabelle
  imports Complex_Main
begin

section \<open>Python values shared by the embedding\<close>

text \<open>
  Every raise of the source is a value: the exception class with a short tag that names
  the raise site.
\<close>

datatype error =
    ValueError string
  | IndexError string
  | TypeError string
  | KeyError string
  | AttributeError string
  | RuntimeError string
  | ZeroDivisionError string
  | NameError string

definition bindE :: "error + 'a \<Rightarrow> ('a \<Rightarrow> error + 'b) \<Rightarrow> error + 'b" where
  "bindE m f = (case m of Inl e \<Rightarrow> Inl e | Inr x \<Rightarrow> f x)"

text \<open>
  A two-dimensional tensor keeps its number of columns beside its rows, so that a tensor
  with no row still has a shape.
\<close>

datatype 'a mat = Mat (ncols: nat) (rows: "'a list list")

definition wf_mat :: "'a mat \<Rightarrow> bool" where
  "wf_mat m = list_all (\<lambda>r. length r = ncols m) (rows m)"

definition nrows :: "'a mat \<Rightarrow> nat" where
  "nrows m = length (rows m)"

section \<open>shift\_tokens\_right\<close>

text \<open>
  The input ids are a tensor of 64-bit integers. Its entries lie in the range of that
  type, and a Python integer written into it has to lie there too: torch converts the
  integer before it writes, and raises a RuntimeError when the conversion overflows.
\<close>

definition int64 :: "int \<Rightarrow> bool" where
  "int64 v = (- (2 ^ 63) \<le> v \<and> v < 2 ^ 63)"

definition long_tensor :: "int mat \<Rightarrow> bool" where
  "long_tensor m = (wf_mat m \<and> list_all (list_all int64) (rows m))"

text \<open>\<^verbatim>\<open>input_ids.new_zeros(input_ids.shape)\<close>\<close>

definition new_zeros :: "int mat \<Rightarrow> int mat" where
  "new_zeros input_ids = Mat (ncols input_ids) (map (\<lambda>r. replicate (length r) 0) (rows input_ids))"

text \<open>\<^verbatim>\<open>shifted_input_ids[:, 1:] = input_ids[:, :-1].clone()\<close>\<close>

definition assign_from_col1 :: "int mat \<Rightarrow> int mat \<Rightarrow> int mat" where
  "assign_from_col1 shifted input_ids =
     Mat (ncols shifted) (map2 (\<lambda>s r. take 1 s @ butlast r) (rows shifted) (rows input_ids))"

text \<open>
  \<^verbatim>\<open>shifted_input_ids[:, 0] = v\<close>: the value is converted to the tensor's integer type
  first (an integer outside the 64-bit range is a RuntimeError), then the index is
  applied (index 0 of an axis of size 0 is an IndexError).
\<close>

definition assign_col0 :: "int mat \<Rightarrow> int \<Rightarrow> error + int mat" where
  "assign_col0 shifted v =
     (if \<not> int64 v then Inl (RuntimeError ''Overflow when unpacking long'')
      else if ncols shifted = 0
      then Inl (IndexError ''index 0 is out of bounds for dimension 1 with size 0'')
      else Inr (Mat (ncols shifted) (map (\<lambda>s. s[0 := v]) (rows shifted))))"

text \<open>
  \<^verbatim>\<open>t.masked_fill_(t == x, v)\<close>: the fill value is converted to the tensor's integer type,
  whatever the mask holds.
\<close>

definition masked_fill_eq :: "int mat \<Rightarrow> int \<Rightarrow> int \<Rightarrow> error + int mat" where
  "masked_fill_eq t x v =
     (if \<not> int64 v then Inl (RuntimeError ''value cannot be converted to type int64_t without overflow'')
      else Inr (Mat (ncols t) (map (map (\<lambda>a. if a = x then v else a)) (rows t))))"

definition shift_tokens_right :: "int mat \<Rightarrow> int option \<Rightarrow> int \<Rightarrow> error + int mat" where
  "shift_tokens_right input_ids pad_token_id decoder_start_token_id =
     (let shifted_input_ids = assign_from_col1 (new_zeros input_ids) input_ids
      in bindE (assign_col0 shifted_input_ids decoder_start_token_id) (\<lambda>shifted_input_ids.
         case pad_token_id of
           None \<Rightarrow> Inl (ValueError ''self.model.config.pad_token_id has to be defined.'')
         | Some pad \<Rightarrow> masked_fill_eq shifted_input_ids (- 100) pad))"

section \<open>\_reorder\_cache\<close>

text \<open>
  A cached state is a tensor whose axis 0 is the beam axis: the list of its per-beam
  slices. \<^verbatim>\<open>index_select(0, beam_idx)\<close> raises when an index is outside the axis.
\<close>

definition index_select0 :: "'a list \<Rightarrow> int list \<Rightarrow> error + 'a list" where
  "index_select0 t idx =
     (if list_all (\<lambda>i. 0 \<le> i \<and> i < int (length t)) idx
      then Inr (map (\<lambda>i. t ! nat i) idx)
      else Inl (IndexError ''index out of range in self''))"

text \<open>A generator or loop that raises at the first element that raises.\<close>

fun mapE :: "('a \<Rightarrow> error + 'b) \<Rightarrow> 'a list \<Rightarrow> error + 'b list" where
  "mapE f [] = Inr []"
| "mapE f (x # xs) = bindE (f x) (\<lambda>y. bindE (mapE f xs) (\<lambda>ys. Inr (y # ys)))"

text \<open>\<^verbatim>\<open>tuple(past_state.index_select(0, beam_idx) for past_state in states)\<close>\<close>

definition select_states :: "'a list list \<Rightarrow> int list \<Rightarrow> error + 'a list list" where
  "select_states states beam_idx = mapE (\<lambda>past_state. index_select0 past_state beam_idx) states"

text \<open>The loop over the layers, with \<open>reordered_past\<close> as its accumulator.\<close>

fun reorder_layers :: "'a list list list \<Rightarrow> 'a list list list \<Rightarrow> int list \<Rightarrow> error + 'a list list list" where
  "reorder_layers reordered_past [] beam_idx = Inr reordered_past"
| "reorder_layers reordered_past (layer_past # past) beam_idx =
     bindE (select_states (take 2 layer_past) beam_idx) (\<lambda>sel.
       reorder_layers (reordered_past @ [sel @ drop 2 layer_past]) past beam_idx)"

definition reorder_cache :: "'a list list list \<Rightarrow> int list \<Rightarrow> error + 'a list list list" where
  "reorder_cache past beam_idx = reorder_layers [] past beam_idx"


section \<open>Floating-point scores\<close>

text \<open>
  A score is a float: a finite value, an infinity or NaN. Finite sums are taken exactly;
  the rounding of the tensor's float type is outside the model. The comparisons are
  Python's: every ordered comparison with NaN is false and NaN differs from everything.
\<close>

datatype pyfloat = Fin real | PosInf | NegInf | NaN

fun is_finite :: "pyfloat \<Rightarrow> bool" where
  "is_finite (Fin a) = True"
| "is_finite _ = False"

fun fadd :: "pyfloat \<Rightarrow> pyfloat \<Rightarrow> pyfloat" where
  "fadd NaN b = NaN"
| "fadd a NaN = NaN"
| "fadd PosInf NegInf = NaN"
| "fadd NegInf PosInf = NaN"
| "fadd PosInf b = PosInf"
| "fadd a PosInf = PosInf"
| "fadd NegInf b = NegInf"
| "fadd a NegInf = NegInf"
| "fadd (Fin a) (Fin b) = Fin (a + b)"

fun float_gt :: "pyfloat \<Rightarrow> pyfloat \<Rightarrow> bool" where
  "float_gt NaN b = False"
| "float_gt a NaN = False"
| "float_gt a PosInf = False"
| "float_gt PosInf b = True"
| "float_gt NegInf b = False"
| "float_gt a NegInf = True"
| "float_gt (Fin a) (Fin b) = (b < a)"

definition float_ne :: "pyfloat \<Rightarrow> pyfloat \<Rightarrow> bool" where
  "float_ne a b = (a = NaN \<or> b = NaN \<or> a \<noteq> b)"

text \<open>Truthiness of an optional flag: \<^verbatim>\<open>None\<close> is false.\<close>

fun truthy :: "bool option \<Rightarrow> bool" where
  "truthy (Some b) = b"
| "truthy None = False"

text \<open>\<^verbatim>\<open>x if x is not None else default\<close>\<close>

fun or_default :: "'a option \<Rightarrow> 'a option \<Rightarrow> 'a option" where
  "or_default (Some x) d = Some x"
| "or_default None d = d"

section \<open>The model configuration\<close>

text \<open>
  The attributes of \<^verbatim>\<open>self.config\<close> that the generation code reads. An attribute that
  may be absent (\<^verbatim>\<open>hasattr\<close>) is an option of its value.
\<close>

record config =
  cfg_num_beams :: "int option"
  cfg_length_penalty :: "pyfloat option"
  cfg_early_stopping :: "bool option"
  cfg_num_beam_groups :: "int option"
  cfg_num_return_sequences :: "int option"
  cfg_pad_token_id :: "int option"
  cfg_eos_token_id :: "int option"
  cfg_decoder_eos_token_id :: "int option option"
  cfg_output_scores :: "bool option"
  cfg_output_attentions :: "bool option"
  cfg_output_hidden_states :: "bool option"
  cfg_return_dict_in_generate :: "bool option"
  cfg_decoder_start_token_id :: "int option"
  cfg_max_length :: "int option"
  cfg_min_length :: "int option"
  cfg_is_encoder_decoder :: bool
  cfg_repetition_penalty :: "pyfloat option"
  cfg_no_repeat_ngram_size :: "int option"
  cfg_encoder_no_repeat_ngram_size :: "int option"
  cfg_bad_words_ids :: "int list list option"
  cfg_diversity_penalty :: "pyfloat option"
  cfg_forced_bos_token_id :: "int option"
  cfg_forced_eos_token_id :: "int option"
  cfg_remove_invalid_values :: "bool option"
  cfg_exponential_decay_length_penalty :: "(int \<times> pyfloat) option"
  cfg_suppress_tokens :: "int list option"
  cfg_begin_suppress_tokens :: "int list option"
  cfg_forced_decoder_ids :: "(int \<times> int) list option option"

section \<open>Score-transform rules and stopping criteria as objects\<close>

text \<open>
  The rule classes are imported from the package's utilities; here an object is its class
  with its constructor arguments. A caller's own class is \<open>CustomProcessor\<close> with a tag
  for the class. A callable is an opaque handle.
\<close>

datatype logits_processor =
    HammingDiversityLogitsProcessor pyfloat int int
  | RepetitionPenaltyLogitsProcessor pyfloat
  | NoRepeatNGramLogitsProcessor int
  | EncoderNoRepeatNGramLogitsProcessor int "int mat"
  | NoBadWordsLogitsProcessor "int list list" "int option"
  | MinLengthLogitsProcessor int int
  | PrefixConstrainedLogitsProcessor nat int
  | ForcedBOSTokenLogitsProcessor int
  | ForcedEOSTokenLogitsProcessor "int option" int
  | InfNanRemoveLogitsProcessor
  | ExponentialDecayLengthPenalty "int \<times> pyfloat" "int option" int
  | SuppressTokensLogitsProcessor "int list"
  | SuppressTokensAtBeginLogitsProcessor "int list" int
  | ForceTokensLogitsProcessor "(int \<times> int) list"
  | LogitNormalization
  | CustomProcessor nat

datatype processor_class =
    HammingDiversity | RepetitionPenalty | NoRepeatNGram | EncoderNoRepeatNGram | NoBadWords
  | MinLength | PrefixConstrained | ForcedBOSToken | ForcedEOSToken | InfNanRemove
  | ExponentialDecay | SuppressTokens | SuppressTokensAtBegin | ForceTokens | Normalization
  | CustomClass nat

text \<open>\<^verbatim>\<open>type(p)\<close>\<close>

fun type_of_processor :: "logits_processor \<Rightarrow> processor_class" where
  "type_of_processor (HammingDiversityLogitsProcessor d b g) = HammingDiversity"
| "type_of_processor (RepetitionPenaltyLogitsProcessor p) = RepetitionPenalty"
| "type_of_processor (NoRepeatNGramLogitsProcessor n) = NoRepeatNGram"
| "type_of_processor (EncoderNoRepeatNGramLogitsProcessor n ids) = EncoderNoRepeatNGram"
| "type_of_processor (NoBadWordsLogitsProcessor ws eos) = NoBadWords"
| "type_of_processor (MinLengthLogitsProcessor n eos) = MinLength"
| "type_of_processor (PrefixConstrainedLogitsProcessor f n) = PrefixConstrained"
| "type_of_processor (ForcedBOSTokenLogitsProcessor t) = ForcedBOSToken"
| "type_of_processor (ForcedEOSTokenLogitsProcessor m t) = ForcedEOSToken"
| "type_of_processor InfNanRemoveLogitsProcessor = InfNanRemove"
| "type_of_processor (ExponentialDecayLengthPenalty p eos n) = ExponentialDecay"
| "type_of_processor (SuppressTokensLogitsProcessor ts) = SuppressTokens"
| "type_of_processor (SuppressTokensAtBeginLogitsProcessor ts i) = SuppressTokensAtBegin"
| "type_of_processor (ForceTokensLogitsProcessor ids) = ForceTokens"
| "type_of_processor LogitNormalization = Normalization"
| "type_of_processor (CustomProcessor c) = CustomClass c"

datatype stopping_criterion =
    MaxLengthCriteria int
  | MaxTimeCriteria pyfloat
  | CustomCriteria nat

datatype criterion_class = MaxLength_class | MaxTime_class | CustomCriteria_class nat

fun type_of_criterion :: "stopping_criterion \<Rightarrow> criterion_class" where
  "type_of_criterion (MaxLengthCriteria m) = MaxLength_class"
| "type_of_criterion (MaxTimeCriteria t) = MaxTime_class"
| "type_of_criterion (CustomCriteria c) = CustomCriteria_class c"

text \<open>
  Modelled from the spec: the \<^verbatim>\<open>max_length\<close> property of \<^verbatim>\<open>StoppingCriteriaList\<close>, whose
  class is not among the sources. The spec's stopping policy has one max-length
  criterion (\<open>current_length >= max_length\<close>); the property is its bound, absent when the
  list has no such criterion.
\<close>

fun criteria_max_length :: "stopping_criterion list \<Rightarrow> int option" where
  "criteria_max_length [] = None"
| "criteria_max_length (MaxLengthCriteria m # cs) = Some m"
| "criteria_max_length (c # cs) = criteria_max_length cs"

section \<open>\_merge\_criteria\_processor\_list\<close>

text \<open>
  The two nested loops raise at the first default and custom object of one class; the
  object kind only words the message. \<^verbatim>\<open>len(None)\<close> is a TypeError.
\<close>

definition merge_criteria_processor_list ::
  "('a \<Rightarrow> 'c) \<Rightarrow> 'a list \<Rightarrow> 'a list option \<Rightarrow> error + 'a list" where
  "merge_criteria_processor_list type_of default_list custom_list =
     (case custom_list of
        None \<Rightarrow> Inl (TypeError ''object of type NoneType has no len()'')
      | Some custom \<Rightarrow>
          if length custom = 0 then Inr default_list
          else if list_ex (\<lambda>default. list_ex (\<lambda>c. type_of c = type_of default) custom) default_list
          then Inl (ValueError ''A custom object of this type has been passed to generate, but it has already been created'')
          else Inr (default_list @ custom))"

section \<open>\_get\_stopping\_criteria\<close>

definition get_stopping_criteria ::
  "int option \<Rightarrow> pyfloat option \<Rightarrow> stopping_criterion list option \<Rightarrow> error + stopping_criterion list" where
  "get_stopping_criteria max_length max_time stopping_criteria =
     (let criteria = [];
          criteria = (case max_length of None \<Rightarrow> criteria | Some m \<Rightarrow> criteria @ [MaxLengthCriteria m]);
          criteria = (case max_time of None \<Rightarrow> criteria | Some t \<Rightarrow> criteria @ [MaxTimeCriteria t])
      in merge_criteria_processor_list type_of_criterion criteria stopping_criteria)"


section \<open>\_get\_logits\_processor\<close>

record lp_args =
  lp_repetition_penalty :: "pyfloat option"
  lp_no_repeat_ngram_size :: "int option"
  lp_encoder_no_repeat_ngram_size :: "int option"
  lp_input_ids_seq_length :: int
  lp_encoder_input_ids :: "int mat"
  lp_bad_words_ids :: "int list list option"
  lp_min_length :: "int option"
  lp_max_length :: "int option"
  lp_eos_token_id :: "int option"
  lp_forced_bos_token_id :: "int option"
  lp_forced_eos_token_id :: "int option"
  lp_prefix_allowed_tokens_fn :: "nat option"
  lp_num_beams :: int
  lp_num_beam_groups :: int
  lp_diversity_penalty :: "pyfloat option"
  lp_remove_invalid_values :: "bool option"
  lp_exponential_decay_length_penalty :: "(int \<times> pyfloat) option"
  lp_logits_processor :: "logits_processor list option"
  lp_renormalize_logits :: "bool option"
  lp_suppress_tokens :: "int list option"
  lp_begin_suppress_tokens :: "int list option"
  lp_forced_decoder_ids :: "(int \<times> int) list option"

text \<open>
  The constructors of the rule classes are not among the sources: \<open>check\<close> stands for
  their argument validation and gives the exception a constructor raises, if any.
  \<^verbatim>\<open>processors.append(Class(args))\<close> is then:
\<close>

definition append_processor ::
  "(logits_processor \<Rightarrow> error option) \<Rightarrow> logits_processor list \<Rightarrow> logits_processor
     \<Rightarrow> error + logits_processor list" where
  "append_processor check processors p =
     (case check p of Some e \<Rightarrow> Inl e | None \<Rightarrow> Inr (processors @ [p]))"

text \<open>\<^verbatim>\<open>a // b\<close> on Python integers\<close>

definition floordiv :: "int \<Rightarrow> int \<Rightarrow> error + int" where
  "floordiv a b = (if b = 0 then Inl (ZeroDivisionError ''integer division or modulo by zero'') else Inr (a div b))"

definition get_logits_processor ::
  "(logits_processor \<Rightarrow> error option) \<Rightarrow> config \<Rightarrow> lp_args \<Rightarrow> error + logits_processor list" where
  "get_logits_processor check cfg a =
    (let processors = [];
         repetition_penalty = or_default (lp_repetition_penalty a) (cfg_repetition_penalty cfg);
         no_repeat_ngram_size = or_default (lp_no_repeat_ngram_size a) (cfg_no_repeat_ngram_size cfg);
         encoder_no_repeat_ngram_size =
           or_default (lp_encoder_no_repeat_ngram_size a) (cfg_encoder_no_repeat_ngram_size cfg);
         bad_words_ids = or_default (lp_bad_words_ids a) (cfg_bad_words_ids cfg);
         eos_token_id = or_default (lp_eos_token_id a) (cfg_eos_token_id cfg);
         diversity_penalty = or_default (lp_diversity_penalty a) (cfg_diversity_penalty cfg);
         forced_bos_token_id = or_default (lp_forced_bos_token_id a) (cfg_forced_bos_token_id cfg);
         forced_eos_token_id = or_default (lp_forced_eos_token_id a) (cfg_forced_eos_token_id cfg);
         remove_invalid_values = or_default (lp_remove_invalid_values a) (cfg_remove_invalid_values cfg);
         exponential_decay_length_penalty =
           or_default (lp_exponential_decay_length_penalty a) (cfg_exponential_decay_length_penalty cfg);
         suppress_tokens = or_default (lp_suppress_tokens a) (cfg_suppress_tokens cfg);
         begin_suppress_tokens = or_default (lp_begin_suppress_tokens a) (cfg_begin_suppress_tokens cfg);
         forced_decoder_ids =
           (case lp_forced_decoder_ids a of
              Some ids \<Rightarrow> Some ids
            | None \<Rightarrow> (case cfg_forced_decoder_ids cfg of Some attr \<Rightarrow> attr | None \<Rightarrow> None))
     in
     bindE (case diversity_penalty of
              Some d \<Rightarrow>
                if float_gt d (Fin 0)
                then append_processor check processors
                       (HammingDiversityLogitsProcessor d (lp_num_beams a) (lp_num_beam_groups a))
                else Inr processors
            | None \<Rightarrow> Inr processors) (\<lambda>processors.
     bindE (case repetition_penalty of
              Some p \<Rightarrow>
                if float_ne p (Fin 1)
                then append_processor check processors (RepetitionPenaltyLogitsProcessor p)
                else Inr processors
            | None \<Rightarrow> Inr processors) (\<lambda>processors.
     bindE (case no_repeat_ngram_size of
              Some n \<Rightarrow>
                if n > 0 then append_processor check processors (NoRepeatNGramLogitsProcessor n)
                else Inr processors
            | None \<Rightarrow> Inr processors) (\<lambda>processors.
     bindE (case encoder_no_repeat_ngram_size of
              Some n \<Rightarrow>
                if n > 0 then
                  if cfg_is_encoder_decoder cfg
                  then append_processor check processors
                         (EncoderNoRepeatNGramLogitsProcessor n (lp_encoder_input_ids a))
                  else Inl (ValueError ''encoder_no_repeat_ngram_size with decoder-only architecture'')
                else Inr processors
            | None \<Rightarrow> Inr processors) (\<lambda>processors.
     bindE (case bad_words_ids of
              Some ws \<Rightarrow> append_processor check processors (NoBadWordsLogitsProcessor ws eos_token_id)
            | None \<Rightarrow> Inr processors) (\<lambda>processors.
     bindE (case (lp_min_length a, eos_token_id) of
              (Some m, Some eos) \<Rightarrow>
                if m > 0 then append_processor check processors (MinLengthLogitsProcessor m eos)
                else Inr processors
            | _ \<Rightarrow> Inr processors) (\<lambda>processors.
     bindE (case lp_prefix_allowed_tokens_fn a of
              Some f \<Rightarrow>
                bindE (floordiv (lp_num_beams a) (lp_num_beam_groups a)) (\<lambda>q.
                  append_processor check processors (PrefixConstrainedLogitsProcessor f q))
            | None \<Rightarrow> Inr processors) (\<lambda>processors.
     bindE (case forced_bos_token_id of
              Some t \<Rightarrow> append_processor check processors (ForcedBOSTokenLogitsProcessor t)
            | None \<Rightarrow> Inr processors) (\<lambda>processors.
     bindE (case forced_eos_token_id of
              Some t \<Rightarrow>
                append_processor check processors (ForcedEOSTokenLogitsProcessor (lp_max_length a) t)
            | None \<Rightarrow> Inr processors) (\<lambda>processors.
     bindE (if remove_invalid_values = Some True
            then append_processor check processors InfNanRemoveLogitsProcessor
            else Inr processors) (\<lambda>processors.
     bindE (case exponential_decay_length_penalty of
              Some p \<Rightarrow>
                append_processor check processors
                  (ExponentialDecayLengthPenalty p eos_token_id (lp_input_ids_seq_length a))
            | None \<Rightarrow> Inr processors) (\<lambda>processors.
     bindE (case suppress_tokens of
              Some ts \<Rightarrow> append_processor check processors (SuppressTokensLogitsProcessor ts)
            | None \<Rightarrow> Inr processors) (\<lambda>processors.
     bindE (case begin_suppress_tokens of
              Some ts \<Rightarrow>
                (let begin_index = lp_input_ids_seq_length a;
                     begin_index =
                       (if lp_input_ids_seq_length a > 1 \<or> forced_bos_token_id = None
                        then begin_index else begin_index + 1)
                 in bindE (case forced_decoder_ids of
                             Some ids \<Rightarrow>
                               if ids = [] then Inl (IndexError ''list index out of range'')
                               else Inr (begin_index + fst (last ids))
                           | None \<Rightarrow> Inr begin_index) (\<lambda>begin_index.
                      append_processor check processors
                        (SuppressTokensAtBeginLogitsProcessor ts begin_index)))
            | None \<Rightarrow> Inr processors) (\<lambda>processors.
     bindE (case forced_decoder_ids of
              Some ids \<Rightarrow> append_processor check processors (ForceTokensLogitsProcessor ids)
            | None \<Rightarrow> Inr processors) (\<lambda>processors.
     bindE (merge_criteria_processor_list type_of_processor processors (lp_logits_processor a))
       (\<lambda>processors.
     if lp_renormalize_logits a = Some True
     then append_processor check processors LogitNormalization
     else Inr processors))))))))))))))))"

text \<open>
  The position of a rule class in the registration order of the specification; the
  diversity rule of grouped beam search, which the code registers first, is position 0.
\<close>

fun registration_rank :: "processor_class \<Rightarrow> nat" where
  "registration_rank HammingDiversity = 0"
| "registration_rank RepetitionPenalty = 1"
| "registration_rank NoRepeatNGram = 2"
| "registration_rank EncoderNoRepeatNGram = 3"
| "registration_rank NoBadWords = 4"
| "registration_rank MinLength = 5"
| "registration_rank PrefixConstrained = 6"
| "registration_rank ForcedBOSToken = 7"
| "registration_rank ForcedEOSToken = 8"
| "registration_rank InfNanRemove = 9"
| "registration_rank ExponentialDecay = 10"
| "registration_rank SuppressTokens = 11"
| "registration_rank SuppressTokensAtBegin = 12"
| "registration_rank ForceTokens = 13"
| "registration_rank Normalization = 15"
| "registration_rank (CustomClass c) = 14"

definition in_registration_order :: "logits_processor list \<Rightarrow> bool" where
  "in_registration_order ps =
     sorted_wrt (\<lambda>p q. registration_rank (type_of_processor p) < registration_rank (type_of_processor q)) ps"


section \<open>Tensor operations of the search loop\<close>

text \<open>
  \<^verbatim>\<open>zeros((batch_size, num_beams))\<close>, \<^verbatim>\<open>beam_scores[:, 1:] = -1e9\<close> and the view as one
  vector.
\<close>

definition init_beam_scores :: "nat \<Rightarrow> nat \<Rightarrow> pyfloat list" where
  "init_beam_scores batch_size num_beams =
     (let beam_scores = replicate batch_size (replicate num_beams (Fin 0));
          beam_scores = map (\<lambda>r. take 1 r @ replicate (length r - 1) (Fin (- 1000000000))) beam_scores
      in concat beam_scores)"

text \<open>
  Broadcasting: two sizes of an axis go together when they are equal or one of them is
  \<open>1\<close>, and an axis of size \<open>1\<close> is stretched to the other size.
\<close>

definition broadcast_size :: "nat \<Rightarrow> nat \<Rightarrow> nat option" where
  "broadcast_size a b = (if a = b then Some b else if a = 1 then Some b else if b = 1 then Some a else None)"

definition expand_list :: "nat \<Rightarrow> 'a list \<Rightarrow> 'a list" where
  "expand_list n xs = (if length xs = n then xs else replicate n (hd xs))"

definition expand_mat :: "nat \<Rightarrow> nat \<Rightarrow> 'a mat \<Rightarrow> 'a mat" where
  "expand_mat r c t = Mat c (map (expand_list c) (expand_list r (rows t)))"

text \<open>
  \<^verbatim>\<open>next_token_scores_processed + beam_scores[:, None].expand_as(next_token_scores)\<close>.
  The beam scores become a column, which \<^verbatim>\<open>expand_as\<close> stretches to the shape of the
  scores (it raises unless there is one beam score per row, or a single one); the sum
  broadcasts the processed scores against it. When the rule chain keeps the shape of the
  scores, the sum adds to every entry the beam score of its row.
\<close>

definition add_beam_scores :: "pyfloat mat \<Rightarrow> pyfloat list \<Rightarrow> pyfloat mat \<Rightarrow> error + pyfloat mat" where
  "add_beam_scores processed beam_scores next_token_scores =
     (if length beam_scores \<noteq> nrows next_token_scores \<and> length beam_scores \<noteq> 1
      then Inl (RuntimeError ''The expanded size of the tensor must match the existing size'')
      else
        let expanded = Mat (ncols next_token_scores)
               (map (replicate (ncols next_token_scores))
                  (expand_list (nrows next_token_scores) beam_scores))
        in case (broadcast_size (nrows processed) (nrows expanded),
                 broadcast_size (ncols processed) (ncols expanded)) of
             (Some r, Some c) \<Rightarrow>
               Inr (Mat c (map2 (map2 fadd) (rows (expand_mat r c processed))
                                            (rows (expand_mat r c expanded))))
           | _ \<Rightarrow> Inl (RuntimeError ''The size of tensor a must match the size of tensor b''))"

text \<open>\<^verbatim>\<open>t.view(r, c)\<close>: the elements in row-major order, cut into \<open>r\<close> rows of \<open>c\<close>.\<close>

definition view2 :: "'a mat \<Rightarrow> nat \<Rightarrow> nat \<Rightarrow> error + 'a mat" where
  "view2 t r c =
     (if nrows t * ncols t = r * c
      then Inr (Mat c (map (\<lambda>i. take c (drop (i * c) (concat (rows t)))) [0..<r]))
      else Inl (RuntimeError ''shape is invalid for input size''))"

text \<open>
  \<^verbatim>\<open>torch.topk(t, k, dim=1, largest=True, sorted=True)\<close>. The library refuses a \<open>k\<close> beyond
  the row length. What it selects in a row is the library's: \<open>selector\<close> gives, for a row
  and \<open>k\<close>, the selected values and their positions.
\<close>

definition torch_topk ::
  "(pyfloat list \<Rightarrow> nat \<Rightarrow> pyfloat list \<times> nat list) \<Rightarrow> pyfloat mat \<Rightarrow> nat
     \<Rightarrow> error + (pyfloat mat \<times> nat mat)" where
  "torch_topk selector t k =
     (if k > ncols t then Inl (RuntimeError ''selected index k out of range'')
      else Inr (Mat k (map (\<lambda>r. fst (selector r k)) (rows t)), Mat k (map (\<lambda>r. snd (selector r k)) (rows t))))"

text \<open>
  The order in which top-k ranks scores: NaN above everything, then by value.
\<close>

fun topk_ge :: "pyfloat \<Rightarrow> pyfloat \<Rightarrow> bool" where
  "topk_ge NaN b = True"
| "topk_ge a NaN = False"
| "topk_ge PosInf b = True"
| "topk_ge a PosInf = False"
| "topk_ge a NegInf = True"
| "topk_ge NegInf b = False"
| "topk_ge (Fin a) (Fin b) = (b \<le> a)"

text \<open>
  What the library promises of one row's selection \<open>(vs, js)\<close> of \<open>k\<close> entries of \<open>xs\<close>:
  \<open>k\<close> distinct positions with their values, in descending order, and no entry left out
  ranks above a selected one. It promises no order among equal scores.
\<close>

definition topk_selection :: "pyfloat list \<Rightarrow> nat \<Rightarrow> pyfloat list \<times> nat list \<Rightarrow> bool" where
  "topk_selection xs k sel =
     (case sel of (vs, js) \<Rightarrow>
        length vs = k \<and> length js = k \<and> distinct js
      \<and> list_all (\<lambda>j. j < length xs) js
      \<and> vs = map (\<lambda>j. xs ! j) js
      \<and> sorted_wrt topk_ge vs
      \<and> list_all (\<lambda>i. i \<in> set js \<or> list_all (\<lambda>v. topk_ge v (xs ! i)) vs) [0..<length xs])"

text \<open>
  Modelled from the spec: \<^verbatim>\<open>torch_int_div\<close> of the package's utilities, which is not among
  the sources; the spec has the parent beam as the flattened index divided by the
  vocabulary size. An integer division by zero raises for each element it divides.
\<close>

definition torch_int_div :: "nat mat \<Rightarrow> nat \<Rightarrow> error + int mat" where
  "torch_int_div t d =
     (if d = 0 \<and> list_ex (\<lambda>r. r \<noteq> []) (rows t) then Inl (RuntimeError ''ZeroDivisionError'')
      else Inr (Mat (ncols t) (map (map (\<lambda>x. int (x div d))) (rows t))))"

text \<open>\<^verbatim>\<open>t % d\<close> on an index tensor\<close>

definition torch_remainder :: "nat mat \<Rightarrow> nat \<Rightarrow> error + int mat" where
  "torch_remainder t d =
     (if d = 0 \<and> list_ex (\<lambda>r. r \<noteq> []) (rows t) then Inl (RuntimeError ''ZeroDivisionError'')
      else Inr (Mat (ncols t) (map (map (\<lambda>x. int (x mod d))) (rows t))))"

text \<open>
  Lines 3196 to 3206 of the loop: the reshape to one row per example, the top
  \<open>2 * num_beams\<close> of each row, and the split of each position into beam and token.
\<close>

definition select_candidates ::
  "(pyfloat list \<Rightarrow> nat \<Rightarrow> pyfloat list \<times> nat list) \<Rightarrow> nat \<Rightarrow> nat \<Rightarrow> pyfloat mat
     \<Rightarrow> error + (pyfloat mat \<times> int mat \<times> int mat)" where
  "select_candidates selector batch_size num_beams next_token_scores =
     (let vocab_size = ncols next_token_scores in
      bindE (view2 next_token_scores batch_size (num_beams * vocab_size)) (\<lambda>next_token_scores.
      bindE (torch_topk selector next_token_scores (2 * num_beams)) (\<lambda>(next_token_scores, next_tokens).
      bindE (torch_int_div next_tokens vocab_size) (\<lambda>next_indices.
      bindE (torch_remainder next_tokens vocab_size) (\<lambda>next_tokens.
      Inr (next_token_scores, next_tokens, next_indices))))))"

text \<open>Indexing with a Python or tensor integer: a negative index counts from the end.\<close>

definition py_index :: "'a list \<Rightarrow> int \<Rightarrow> error + 'a" where
  "py_index xs i =
     (let n = int (length xs) in
      if - n \<le> i \<and> i < n then Inr (xs ! nat (if i < 0 then i + n else i))
      else Inl (IndexError ''index out of range''))"

text \<open>\<^verbatim>\<open>input_ids[beam_idx, :]\<close>\<close>

definition index_rows :: "'a mat \<Rightarrow> int list \<Rightarrow> error + 'a mat" where
  "index_rows t idx = bindE (mapE (py_index (rows t)) idx) (\<lambda>rs. Inr (Mat (ncols t) rs))"

text \<open>\<^verbatim>\<open>torch.cat([t, col.unsqueeze(-1)], dim=-1)\<close>\<close>

definition cat_column :: "'a mat \<Rightarrow> 'a list \<Rightarrow> error + 'a mat" where
  "cat_column t col =
     (if length col = nrows t then Inr (Mat (ncols t + 1) (map2 (\<lambda>r x. r @ [x]) (rows t) col))
      else Inl (RuntimeError ''Sizes of tensors must match except in dimension 1''))"

text \<open>
  \<^verbatim>\<open>tuple((beam_indices[beam_idx[i]] + (beam_idx[i],) for i in range(len(beam_indices))))\<close>
\<close>

definition update_beam_indices :: "int list list \<Rightarrow> int list \<Rightarrow> error + int list list" where
  "update_beam_indices beam_indices beam_idx =
     mapE (\<lambda>i. bindE (py_index beam_idx (int i)) (\<lambda>b.
                bindE (py_index beam_indices b) (\<lambda>h. Inr (h @ [b]))))
       [0..<length beam_indices]"

section \<open>The collaborators of the search loop\<close>

text \<open>
  The scoring model, the rule classes, the beam scorer and the stopping criteria are
  outside the sources; the loop is modelled over what they return. \<open>'x\<close> is the encoder
  context handed to the model, \<open>'s\<close> the state of the beam scorer, \<open>'c\<close> a cached
  per-beam slice. The clock argument is the number of iterations begun, which stands for
  the time a criterion reads and for the round of the distributed reduction.
\<close>

record beam_outputs =
  next_beam_scores :: "pyfloat list"
  next_beam_tokens :: "int list"
  next_beam_indices :: "int list"

record ('x, 's) collab =
  c_model_scores :: "'x \<Rightarrow> int mat \<Rightarrow> error + pyfloat mat"
  c_apply_processor :: "logits_processor \<Rightarrow> int mat \<Rightarrow> pyfloat mat \<Rightarrow> error + pyfloat mat"
  c_topk_kernel :: "pyfloat list \<Rightarrow> nat \<Rightarrow> pyfloat list \<times> nat list"
  c_batch_size :: "'s \<Rightarrow> nat"
  c_num_beams :: "'s \<Rightarrow> nat"
  c_process :: "'s \<Rightarrow> int mat \<Rightarrow> pyfloat mat \<Rightarrow> int mat \<Rightarrow> int mat \<Rightarrow> int option \<Rightarrow> int option
                  \<Rightarrow> int list list option \<Rightarrow> error + ('s \<times> beam_outputs)"
  c_is_done :: "'s \<Rightarrow> bool"
  c_finalize :: "'s \<Rightarrow> int mat \<Rightarrow> pyfloat list \<Rightarrow> int mat \<Rightarrow> int mat \<Rightarrow> int option \<Rightarrow> int option
                  \<Rightarrow> int option \<Rightarrow> int list list option \<Rightarrow> error + int mat"
  c_criterion :: "stopping_criterion \<Rightarrow> nat \<Rightarrow> int mat \<Rightarrow> pyfloat mat list option \<Rightarrow> bool"
  c_validate_stopping_criteria :: "stopping_criterion list \<Rightarrow> int \<Rightarrow> stopping_criterion list"
  c_all_reduce :: "nat \<Rightarrow> nat \<Rightarrow> error + nat"

text \<open>
  \<open>c_model_scores\<close> is \<^verbatim>\<open>prepare_inputs_for_generation\<close>, the forward call, the last
  position of its logits, \<^verbatim>\<open>adjust_logits_during_generation\<close> (the identity in this class)
  and the log-softmax: the scores of shape (beams, vocabulary). \<open>c_apply_processor\<close> is
  the call of one rule, \<open>c_process\<close>, \<open>c_is_done\<close> and \<open>c_finalize\<close> are the beam scorer,
  \<open>c_criterion\<close> is the call of one stopping criterion, and \<open>c_all_reduce clock flag\<close>
  is the sum of the peers' flags after \<^verbatim>\<open>dist.all_reduce\<close>.
\<close>

text \<open>
  Modelled from the spec: calling a \<^verbatim>\<open>LogitsProcessorList\<close>, whose class is not among the
  sources, applies the rules strictly in their order in the list.
\<close>

fun logits_processor_call ::
  "(logits_processor \<Rightarrow> int mat \<Rightarrow> pyfloat mat \<Rightarrow> error + pyfloat mat) \<Rightarrow> logits_processor list
     \<Rightarrow> int mat \<Rightarrow> pyfloat mat \<Rightarrow> error + pyfloat mat" where
  "logits_processor_call apply_rule [] input_ids scores = Inr scores"
| "logits_processor_call apply_rule (p # ps) input_ids scores =
     bindE (apply_rule p input_ids scores) (\<lambda>scores. logits_processor_call apply_rule ps input_ids scores)"

text \<open>
  Modelled from the spec: calling a \<^verbatim>\<open>StoppingCriteriaList\<close>, whose class is not among the
  sources, is the disjunction of its criteria.
\<close>

definition stopping_criteria_call ::
  "(stopping_criterion \<Rightarrow> nat \<Rightarrow> int mat \<Rightarrow> pyfloat mat list option \<Rightarrow> bool) \<Rightarrow> stopping_criterion list
     \<Rightarrow> nat \<Rightarrow> int mat \<Rightarrow> pyfloat mat list option \<Rightarrow> bool" where
  "stopping_criteria_call fires criteria clock input_ids scores =
     list_ex (\<lambda>c. fires c clock input_ids scores) criteria"

section \<open>beam\_search\<close>

record 'c bs_args =
  bs_logits_processor :: "logits_processor list option"
  bs_stopping_criteria :: "stopping_criterion list option"
  bs_max_length :: "int option"
  bs_pad_token_id :: "int option"
  bs_eos_token_id :: "int option"
  bs_output_attentions :: "bool option"
  bs_output_hidden_states :: "bool option"
  bs_output_scores :: "bool option"
  bs_return_dict_in_generate :: "bool option"
  bs_synced_gpus :: "bool option"
  bs_past :: "'c list list list option"

text \<open>The values fixed before the loop, with the warnings issued on the way.\<close>

record bs_env =
  env_logits_processor :: "logits_processor list"
  env_stopping_criteria :: "stopping_criterion list"
  env_pad_token_id :: "int option"
  env_eos_token_id :: "int option"
  env_output_scores :: bool
  env_output_attentions :: bool
  env_output_hidden_states :: bool
  env_return_dict_in_generate :: bool
  env_synced_gpus :: bool
  env_batch_size :: nat
  env_num_beams :: nat
  env_warnings :: "string list"

text \<open>
  The variables of the loop. \<open>next_tokens\<close> and \<open>next_indices\<close> are unbound until an
  iteration assigns them.
\<close>

record ('s, 'c) bs_state =
  st_input_ids :: "int mat"
  st_beam_scores :: "pyfloat list"
  st_scorer :: 's
  st_past :: "'c list list list option"
  st_cur_len :: nat
  st_this_peer_finished :: bool
  st_scores :: "pyfloat mat list option"
  st_beam_indices :: "int list list option"
  st_next_tokens :: "int mat option"
  st_next_indices :: "int mat option"
  st_clock :: nat

text \<open>
  Lines 3082 to 3137. \<^verbatim>\<open>model_kwargs\<close> cannot hold \<^verbatim>\<open>encoder_outputs\<close>, which is a named
  parameter, so reading it there is a KeyError.
\<close>

definition beam_search_init ::
  "('x, 's) collab \<Rightarrow> config \<Rightarrow> 'c bs_args \<Rightarrow> int mat \<Rightarrow> 's \<Rightarrow> error + (bs_env \<times> ('s, 'c) bs_state)" where
  "beam_search_init C cfg a input_ids beam_scorer =
     (let logits_processor = (case bs_logits_processor a of Some l \<Rightarrow> l | None \<Rightarrow> []);
          stopping_criteria = (case bs_stopping_criteria a of Some l \<Rightarrow> l | None \<Rightarrow> []);
          warnings = (case bs_max_length a of
                        Some m \<Rightarrow> [''`max_length` is deprecated in this function'']
                      | None \<Rightarrow> []);
          stopping_criteria = (case bs_max_length a of
                        Some m \<Rightarrow> c_validate_stopping_criteria C stopping_criteria m
                      | None \<Rightarrow> stopping_criteria);
          warnings = (if length stopping_criteria = 0
                      then warnings @ [''You don't have defined any stopping_criteria, this will likely loop forever'']
                      else warnings);
          pad_token_id = or_default (bs_pad_token_id a) (cfg_pad_token_id cfg);
          eos_token_id = or_default (bs_eos_token_id a) (cfg_eos_token_id cfg);
          output_scores = truthy (or_default (bs_output_scores a) (cfg_output_scores cfg));
          output_attentions = truthy (or_default (bs_output_attentions a) (cfg_output_attentions cfg));
          output_hidden_states =
            truthy (or_default (bs_output_hidden_states a) (cfg_output_hidden_states cfg));
          return_dict_in_generate =
            truthy (or_default (bs_return_dict_in_generate a) (cfg_return_dict_in_generate cfg));
          batch_size = c_batch_size C beam_scorer;
          num_beams = c_num_beams C beam_scorer;
          batch_beam_size = nrows input_ids;
          cur_len = ncols input_ids
      in
      if num_beams * batch_size \<noteq> batch_beam_size
      then Inl (ValueError ''Batch dimension of `input_ids` should be num_beams * batch_size'')
      else if return_dict_in_generate \<and> cfg_is_encoder_decoder cfg
              \<and> (output_attentions \<or> output_hidden_states)
      then Inl (KeyError ''encoder_outputs'')
      else
        Inr (\<lparr> env_logits_processor = logits_processor,
                env_stopping_criteria = stopping_criteria,
                env_pad_token_id = pad_token_id,
                env_eos_token_id = eos_token_id,
                env_output_scores = output_scores,
                env_output_attentions = output_attentions,
                env_output_hidden_states = output_hidden_states,
                env_return_dict_in_generate = return_dict_in_generate,
                env_synced_gpus = truthy (bs_synced_gpus a),
                env_batch_size = batch_size,
                env_num_beams = num_beams,
                env_warnings = warnings \<rparr>,
             \<lparr> st_input_ids = input_ids,
                st_beam_scores = init_beam_scores batch_size num_beams,
                st_scorer = beam_scorer,
                st_past = bs_past a,
                st_cur_len = cur_len,
                st_this_peer_finished = False,
                st_scores = (if return_dict_in_generate \<and> output_scores then Some [] else None),
                st_beam_indices =
                  (if return_dict_in_generate \<and> output_scores
                   then Some (replicate batch_beam_size []) else None),
                st_next_tokens = None,
                st_next_indices = None,
                st_clock = 0 \<rparr>))"

text \<open>
  Lines 3167 to 3236: one expansion step, from the scores of the model to the updated
  variables. The forward call returns a tuple, so reading an attribute of it (when
  attentions or hidden states are to be returned) is an AttributeError.
\<close>

definition expansion_step ::
  "('x, 's) collab \<Rightarrow> bs_env \<Rightarrow> ('s, 'c) bs_state \<Rightarrow> pyfloat mat \<Rightarrow> error + ('s, 'c) bs_state" where
  "expansion_step C env st next_token_scores =
     bindE (logits_processor_call (c_apply_processor C) (env_logits_processor env)
              (st_input_ids st) next_token_scores) (\<lambda>next_token_scores_processed.
     bindE (add_beam_scores next_token_scores_processed (st_beam_scores st) next_token_scores)
       (\<lambda>next_token_scores.
     let scores = (if env_return_dict_in_generate env \<and> env_output_scores env
                   then map_option (\<lambda>s. s @ [next_token_scores_processed]) (st_scores st)
                   else st_scores st)
     in
     if env_return_dict_in_generate env \<and> env_output_attentions env
     then Inl (AttributeError ''tuple object has no attribute decoder_attentions'')
     else if env_return_dict_in_generate env \<and> env_output_hidden_states env
     then Inl (AttributeError ''tuple object has no attribute decoder_hidden_states'')
     else
     bindE (select_candidates (c_topk_kernel C) (env_batch_size env) (env_num_beams env)
              next_token_scores) (\<lambda>(next_token_scores, next_tokens, next_indices).
     bindE (c_process C (st_scorer st) (st_input_ids st) next_token_scores next_tokens next_indices
              (env_pad_token_id env) (env_eos_token_id env) (st_beam_indices st))
       (\<lambda>(beam_scorer, beam_outputs).
     let beam_scores = next_beam_scores beam_outputs;
         beam_next_tokens = next_beam_tokens beam_outputs;
         beam_idx = next_beam_indices beam_outputs
     in
     bindE (index_rows (st_input_ids st) beam_idx) (\<lambda>selected.
     bindE (cat_column selected beam_next_tokens) (\<lambda>input_ids.
     bindE (case st_past st of
              Some past \<Rightarrow> bindE (reorder_cache past beam_idx) (\<lambda>p. Inr (Some p))
            | None \<Rightarrow> Inr None) (\<lambda>past.
     bindE (case st_beam_indices st of
              Some beam_indices \<Rightarrow>
                if env_return_dict_in_generate env \<and> env_output_scores env
                then bindE (update_beam_indices beam_indices beam_idx) (\<lambda>b. Inr (Some b))
                else Inr (Some beam_indices)
            | None \<Rightarrow> Inr None) (\<lambda>beam_indices.
     Inr (st\<lparr> st_input_ids := input_ids,
              st_beam_scores := beam_scores,
              st_scorer := beam_scorer,
              st_past := past,
              st_cur_len := st_cur_len st + 1,
              st_scores := scores,
              st_beam_indices := beam_indices,
              st_next_tokens := Some next_tokens,
              st_next_indices := Some next_indices \<rparr>)))))))))"

datatype 'st outcome = Break 'st | Continue 'st

text \<open>Lines 3238 to 3242, on the variables the step has left.\<close>

definition termination_check ::
  "('x, 's) collab \<Rightarrow> bs_env \<Rightarrow> ('s, 'c) bs_state \<Rightarrow> ('s, 'c) bs_state outcome" where
  "termination_check C env st =
     (if c_is_done C (st_scorer st)
         \<or> stopping_criteria_call (c_criterion C) (env_stopping_criteria env) (st_clock st)
              (st_input_ids st) (st_scores st)
      then if \<not> env_synced_gpus env then Break st
           else Continue (st\<lparr> st_this_peer_finished := True \<rparr>)
      else Continue st)"

text \<open>One pass through the body of \<^verbatim>\<open>while True\<close>.\<close>

definition loop_iteration ::
  "('x, 's) collab \<Rightarrow> bs_env \<Rightarrow> 'x \<Rightarrow> ('s, 'c) bs_state \<Rightarrow> error + ('s, 'c) bs_state outcome" where
  "loop_iteration C env ctx st0 =
     (let st = st0\<lparr> st_clock := st_clock st0 + 1 \<rparr> in
      bindE (if env_synced_gpus env
             then bindE (c_all_reduce C (st_clock st) (if st_this_peer_finished st then 0 else 1))
                    (\<lambda>total. Inr (total = 0))
             else Inr False) (\<lambda>all_peers_finished.
      if all_peers_finished then Inr (Break st)
      else
        bindE (c_model_scores C ctx (st_input_ids st)) (\<lambda>next_token_scores.
        if env_synced_gpus env \<and> st_this_peer_finished st
        then Inr (Continue (st\<lparr> st_cur_len := st_cur_len st + 1 \<rparr>))
        else bindE (expansion_step C env st next_token_scores) (\<lambda>st.
             Inr (termination_check C env st)))))"

text \<open>
  The loop with a bound on the number of passes: \<open>None\<close> when the bound is reached, since
  \<^verbatim>\<open>while True\<close> need not end.
\<close>

fun while_true ::
  "('x, 's) collab \<Rightarrow> bs_env \<Rightarrow> 'x \<Rightarrow> nat \<Rightarrow> ('s, 'c) bs_state \<Rightarrow> (error + ('s, 'c) bs_state) option" where
  "while_true C env ctx 0 st = None"
| "while_true C env ctx (Suc fuel) st =
     (case loop_iteration C env ctx st of
        Inl e \<Rightarrow> Some (Inl e)
      | Inr (Break st') \<Rightarrow> Some (Inr st')
      | Inr (Continue st') \<Rightarrow> while_true C env ctx fuel st')"

text \<open>Lines 3244 to 3255.\<close>

definition beam_search_finalize ::
  "('x, 's) collab \<Rightarrow> bs_env \<Rightarrow> ('s, 'c) bs_state \<Rightarrow> error + int mat" where
  "beam_search_finalize C env st =
     (case (st_next_tokens st, st_next_indices st) of
        (Some next_tokens, Some next_indices) \<Rightarrow>
          c_finalize C (st_scorer st) (st_input_ids st) (st_beam_scores st) next_tokens next_indices
            (env_pad_token_id env) (env_eos_token_id env)
            (criteria_max_length (env_stopping_criteria env)) (st_beam_indices st)
      | _ \<Rightarrow> Inl (NameError ''local variable next_tokens referenced before assignment''))"

definition beam_search ::
  "('x, 's) collab \<Rightarrow> config \<Rightarrow> 'c bs_args \<Rightarrow> 'x \<Rightarrow> int mat \<Rightarrow> 's \<Rightarrow> nat \<Rightarrow> (error + int mat) option" where
  "beam_search C cfg a ctx input_ids beam_scorer fuel =
     (case beam_search_init C cfg a input_ids beam_scorer of
        Inl e \<Rightarrow> Some (Inl e)
      | Inr (env, st) \<Rightarrow>
          (case while_true C env ctx fuel st of
             None \<Rightarrow> None
           | Some (Inl e) \<Rightarrow> Some (Inl e)
           | Some (Inr st') \<Rightarrow> Some (beam_search_finalize C env st')))"


section \<open>generate\<close>

record 'c gen_args =
  g_input_ids :: "int mat"
  g_max_length :: "int option"
  g_min_length :: "int option"
  g_early_stopping :: "bool option"
  g_num_beams :: "int option"
  g_repetition_penalty :: "pyfloat option"
  g_pad_token_id :: "int option"
  g_eos_token_id :: "int option"
  g_length_penalty :: "pyfloat option"
  g_no_repeat_ngram_size :: "int option"
  g_encoder_no_repeat_ngram_size :: "int option"
  g_num_return_sequences :: "int option"
  g_max_time :: "pyfloat option"
  g_max_new_tokens :: "int option"
  g_num_beam_groups :: "int option"
  g_diversity_penalty :: "pyfloat option"
  g_logits_processor :: "logits_processor list option"
  g_renormalize_logits :: "bool option"
  g_stopping_criteria :: "stopping_criterion list option"
  g_output_scores :: "bool option"
  g_return_dict_in_generate :: "bool option"
  g_forced_bos_token_id :: "int option"
  g_forced_eos_token_id :: "int option"
  g_remove_invalid_values :: "bool option"
  g_synced_gpus :: "bool option"
  g_exponential_decay_length_penalty :: "(int \<times> pyfloat) option"
  g_suppress_tokens :: "int list option"
  g_begin_suppress_tokens :: "int list option"
  g_forced_decoder_ids :: "(int \<times> int) list option"
  g_kwargs_past :: "'c list list list option"
  g_kwargs_encoder_outputs :: bool

text \<open>
  The tensor work of \<^verbatim>\<open>generate\<close> is the model's: \<open>gc_encode\<close> is steps 2 and 3 (the
  encoders and the fusion of their outputs) and gives the encoder context or raises;
  \<open>gc_expand\<close> repeats the context per beam (step 11); \<open>gc_new_scorer\<close> is the constructor
  of \<^verbatim>\<open>BeamSearchScorer\<close>; \<open>gc_check\<close> is the validation of the rule constructors.
\<close>

record ('x, 's) gen_collab =
  gc_encode :: "error + 'x"
  gc_expand :: "'x \<Rightarrow> int list \<Rightarrow> error + 'x"
  gc_new_scorer :: "nat \<Rightarrow> int \<Rightarrow> pyfloat option \<Rightarrow> bool option \<Rightarrow> int \<Rightarrow> error + 's"
  gc_check :: "logits_processor \<Rightarrow> error option"
  gc_has_text_image :: bool
  gc_has_entity_image :: bool

text \<open>Step 5, lines 2844 to 2860: the maximum length from the two length arguments.\<close>

definition resolve_max_length :: "int option \<Rightarrow> int option \<Rightarrow> int \<Rightarrow> error + int option" where
  "resolve_max_length max_length max_new_tokens input_ids_seq_length =
     (case (max_length, max_new_tokens) of
        (None, None) \<Rightarrow> Inr max_length
      | (None, Some n) \<Rightarrow> Inr (Some (n + input_ids_seq_length))
      | (Some m, Some n) \<Rightarrow> Inl (ValueError ''Both `max_new_tokens` and `max_length` have been set'')
      | (Some m, None) \<Rightarrow> Inr max_length)"

text \<open>
  The operands of an ordered comparison of optional integers: comparing with \<^verbatim>\<open>None\<close>
  is a TypeError.
\<close>

definition py_compare :: "int option \<Rightarrow> int option \<Rightarrow> error + int \<times> int" where
  "py_compare a b =
     (case (a, b) of
        (Some x, Some y) \<Rightarrow> Inr (x, y)
      | _ \<Rightarrow> Inl (TypeError ''comparison not supported with NoneType''))"

text \<open>
  \<^verbatim>\<open>torch.arange(n).view(-1, 1).repeat(1, num_beams).view(-1)\<close>
\<close>

definition expanded_return_idx :: "nat \<Rightarrow> int \<Rightarrow> error + int list" where
  "expanded_return_idx n num_beams =
     (if num_beams < 0 then Inl (RuntimeError ''Trying to create tensor with negative dimension'')
      else Inr (concat (map (\<lambda>i. replicate (nat num_beams) (int i)) [0..<n])))"

text \<open>
  What \<^verbatim>\<open>generate\<close> hands to \<^verbatim>\<open>beam_search\<close>, with the lengths it settled on. The
  warnings that \<^verbatim>\<open>generate\<close> logs on the way (a pad token taken from the end token, no
  length argument, an input already at the maximum length) change none of its values and
  are left out.
\<close>

record ('x, 's, 'c) prepared =
  p_gen_input_ids :: "int mat"
  p_context :: 'x
  p_expanded_context :: 'x
  p_beam_scorer :: 's
  p_beam_search_args :: "'c bs_args"
  p_max_length :: int
  p_min_length :: "int option"

definition generate_prepare ::
  "('x, 's) gen_collab \<Rightarrow> config \<Rightarrow> 'c gen_args \<Rightarrow> error + ('x, 's, 'c) prepared" where
  "generate_prepare G cfg a =
    (let num_beams = or_default (g_num_beams a) (cfg_num_beams cfg);
         length_penalty = or_default (g_length_penalty a) (cfg_length_penalty cfg);
         early_stopping = or_default (g_early_stopping a) (cfg_early_stopping cfg);
         num_beam_groups = or_default (g_num_beam_groups a) (cfg_num_beam_groups cfg);
         num_return_sequences = or_default (g_num_return_sequences a) (cfg_num_return_sequences cfg);
         pad_token_id = or_default (g_pad_token_id a) (cfg_pad_token_id cfg);
         eos_token_id = or_default (g_eos_token_id a) (cfg_eos_token_id cfg);
         eos_token_id = (case (eos_token_id, cfg_decoder_eos_token_id cfg) of
                           (None, Some decoder_eos) \<Rightarrow> decoder_eos
                         | _ \<Rightarrow> eos_token_id);
         pad_token_id = (if pad_token_id = None \<and> eos_token_id \<noteq> None then eos_token_id
                         else pad_token_id);
         output_scores = or_default (g_output_scores a) (cfg_output_scores cfg);
         return_dict_in_generate =
           or_default (g_return_dict_in_generate a) (cfg_return_dict_in_generate cfg)
     in
     bindE (gc_encode G) (\<lambda>context.
     if \<not> gc_has_text_image G \<and> \<not> gc_has_entity_image G
     then Inl (RuntimeError ''`has_text_image` and `has_entity_image` cannot both be False!'')
     else
     let batch_size = nrows (g_input_ids a) in
     bindE (case cfg_decoder_start_token_id cfg of
              Some d \<Rightarrow> Inr (Mat 1 (replicate batch_size [d]))
            | None \<Rightarrow> Inl (TypeError ''unsupported operand type(s) for *: Tensor and NoneType''))
       (\<lambda>gen_input_ids.
     let input_ids_seq_length = int (ncols gen_input_ids) in
     bindE (resolve_max_length (g_max_length a) (g_max_new_tokens a) input_ids_seq_length)
       (\<lambda>max_length.
     let max_length = or_default max_length (cfg_max_length cfg);
         min_length = or_default (g_min_length a) (cfg_min_length cfg)
     in
     bindE (case min_length of
              Some m \<Rightarrow> bindE (py_compare min_length max_length) (\<lambda>(lo, hi).
                          if lo > hi then Inl (ValueError ''Unfeasible length constraints'')
                          else Inr ())
            | None \<Rightarrow> Inr ()) (\<lambda>_.
     bindE (case max_length of
              Some m \<Rightarrow> Inr m
            | None \<Rightarrow> Inl (TypeError ''comparison not supported with NoneType'')) (\<lambda>max_len.
     bindE (py_compare num_beam_groups num_beams) (\<lambda>(beam_groups, beams).
     if beam_groups > beams then Inl (ValueError ''`num_beam_groups` has to be smaller or equal to `num_beams`'')
     else
     bindE (get_logits_processor (gc_check G) cfg
              \<lparr> lp_repetition_penalty = g_repetition_penalty a,
                 lp_no_repeat_ngram_size = g_no_repeat_ngram_size a,
                 lp_encoder_no_repeat_ngram_size = g_encoder_no_repeat_ngram_size a,
                 lp_input_ids_seq_length = input_ids_seq_length,
                 lp_encoder_input_ids = g_input_ids a,
                 lp_bad_words_ids = None,
                 lp_min_length = min_length,
                 lp_max_length = max_length,
                 lp_eos_token_id = eos_token_id,
                 lp_forced_bos_token_id = g_forced_bos_token_id a,
                 lp_forced_eos_token_id = g_forced_eos_token_id a,
                 lp_prefix_allowed_tokens_fn = None,
                 lp_num_beams = beams,
                 lp_num_beam_groups = beam_groups,
                 lp_diversity_penalty = g_diversity_penalty a,
                 lp_remove_invalid_values = g_remove_invalid_values a,
                 lp_exponential_decay_length_penalty = g_exponential_decay_length_penalty a,
                 lp_logits_processor = g_logits_processor a,
                 lp_renormalize_logits = g_renormalize_logits a,
                 lp_suppress_tokens = g_suppress_tokens a,
                 lp_begin_suppress_tokens = g_begin_suppress_tokens a,
                 lp_forced_decoder_ids = g_forced_decoder_ids a \<rparr>) (\<lambda>logits_processor.
     bindE (get_stopping_criteria max_length (g_max_time a) (g_stopping_criteria a))
       (\<lambda>stopping_criteria.
     bindE (py_compare num_return_sequences num_beams) (\<lambda>(return_sequences, beams).
     if return_sequences > beams
     then Inl (ValueError ''`num_return_sequences` has to be smaller or equal to `num_beams`.'')
     else if criteria_max_length stopping_criteria = None
     then Inl (ValueError ''`max_length` needs to be a stopping_criteria for now.'')
     else
     bindE (gc_new_scorer G batch_size beams length_penalty early_stopping
              return_sequences) (\<lambda>beam_scorer.
     bindE (expanded_return_idx (nrows gen_input_ids) beams) (\<lambda>idx.
     bindE (index_select0 (rows gen_input_ids) idx) (\<lambda>gen_rows.
     bindE (gc_expand G context idx) (\<lambda>expanded.
     if g_kwargs_encoder_outputs a
     then Inl (TypeError ''beam_search() got multiple values for argument encoder_outputs'')
     else
     Inr \<lparr> p_gen_input_ids = Mat (ncols gen_input_ids) gen_rows,
            p_context = context,
            p_expanded_context = expanded,
            p_beam_scorer = beam_scorer,
            p_beam_search_args =
              \<lparr> bs_logits_processor = Some logits_processor,
                 bs_stopping_criteria = Some stopping_criteria,
                 bs_max_length = None,
                 bs_pad_token_id = pad_token_id,
                 bs_eos_token_id = eos_token_id,
                 bs_output_attentions = None,
                 bs_output_hidden_states = None,
                 bs_output_scores = output_scores,
                 bs_return_dict_in_generate = return_dict_in_generate,
                 bs_synced_gpus = g_synced_gpus a,
                 bs_past = g_kwargs_past a \<rparr>,
            p_max_length = max_len,
            p_min_length = min_length \<rparr>))))))))))))))"

text \<open>
  Step 12: the search on what was prepared. The result pairs the sequences with the
  image-selection values, which are part of the encoder context.
\<close>

definition generate ::
  "('x, 's) gen_collab \<Rightarrow> ('x, 's) collab \<Rightarrow> config \<Rightarrow> 'c gen_args \<Rightarrow> nat
     \<Rightarrow> (error + int mat \<times> 'x) option" where
  "generate G C cfg a fuel =
     (case generate_prepare G cfg a of
        Inl e \<Rightarrow> Some (Inl e)
      | Inr p \<Rightarrow>
          (case beam_search C cfg (p_beam_search_args p) (p_expanded_context p) (p_gen_input_ids p)
                  (p_beam_scorer p) fuel of
             None \<Rightarrow> None
           | Some (Inl e) \<Rightarrow> Some (Inl e)
           | Some (Inr sequences) \<Rightarrow> Some (Inr (sequences, p_context p))))"


section \<open>Stand-ins for the collaborators, for running the model on concrete inputs\<close>

text \<open>
  A selection that satisfies \<open>topk_selection\<close>: the positions of a row in descending order
  of score by insertion, the first \<open>k\<close> of them.
\<close>

fun insert_position :: "pyfloat list \<Rightarrow> nat \<Rightarrow> nat list \<Rightarrow> nat list" where
  "insert_position xs j [] = [j]"
| "insert_position xs j (i # is) =
     (if topk_ge (xs ! i) (xs ! j) then i # insert_position xs j is else j # i # is)"

definition example_topk :: "pyfloat list \<Rightarrow> nat \<Rightarrow> pyfloat list \<times> nat list" where
  "example_topk xs k =
     (let js = take k (foldl (\<lambda>js j. insert_position xs j js) [] [0..<length xs])
      in (map (\<lambda>j. xs ! j) js, js))"

text \<open>
  A beam scorer for one example that keeps the first \<open>num_beams\<close> candidates of the row
  and counts its calls; it reports done from the \<open>done_after\<close>-th call on.
\<close>

definition example_process ::
  "nat \<Rightarrow> nat \<Rightarrow> int mat \<Rightarrow> pyfloat mat \<Rightarrow> int mat \<Rightarrow> int mat \<Rightarrow> int option \<Rightarrow> int option
     \<Rightarrow> int list list option \<Rightarrow> error + (nat \<times> beam_outputs)" where
  "example_process num_beams calls input_ids next_scores next_tokens next_indices pad eos beam_indices =
     Inr (calls + 1,
          \<lparr> next_beam_scores = concat (map (take num_beams) (rows next_scores)),
             next_beam_tokens = concat (map (take num_beams) (rows next_tokens)),
             next_beam_indices = concat (map (take num_beams) (rows next_indices)) \<rparr>)"

definition example_collab :: "pyfloat mat \<Rightarrow> nat \<Rightarrow> nat \<Rightarrow> nat \<Rightarrow> (unit, nat) collab" where
  "example_collab scores num_beams done_after other_peers =
     \<lparr> c_model_scores = (\<lambda>ctx input_ids. Inr scores),
        c_apply_processor = (\<lambda>p input_ids s. Inr s),
        c_topk_kernel = example_topk,
        c_batch_size = (\<lambda>s. 1),
        c_num_beams = (\<lambda>s. num_beams),
        c_process = example_process num_beams,
        c_is_done = (\<lambda>calls. done_after \<le> calls),
        c_finalize = (\<lambda>s input_ids beam_scores next_tokens next_indices pad eos max_length beam_indices.
                        Inr input_ids),
        c_criterion = (\<lambda>c clock input_ids scores.
                        case c of MaxLengthCriteria m \<Rightarrow> m \<le> int (ncols input_ids) | _ \<Rightarrow> False),
        c_validate_stopping_criteria = (\<lambda>criteria m. criteria),
        c_all_reduce = (\<lambda>clock flag. Inr (flag + other_peers)) \<rparr>"

definition example_config :: config where
  "example_config =
     \<lparr> cfg_num_beams = Some 2,
        cfg_length_penalty = Some (Fin 1),
        cfg_early_stopping = Some False,
        cfg_num_beam_groups = Some 1,
        cfg_num_return_sequences = Some 1,
        cfg_pad_token_id = Some 1,
        cfg_eos_token_id = Some 2,
        cfg_decoder_eos_token_id = None,
        cfg_output_scores = Some False,
        cfg_output_attentions = Some False,
        cfg_output_hidden_states = Some False,
        cfg_return_dict_in_generate = Some False,
        cfg_decoder_start_token_id = Some 2,
        cfg_max_length = Some 20,
        cfg_min_length = Some 0,
        cfg_is_encoder_decoder = True,
        cfg_repetition_penalty = Some (Fin 1),
        cfg_no_repeat_ngram_size = Some 0,
        cfg_encoder_no_repeat_ngram_size = Some 0,
        cfg_bad_words_ids = None,
        cfg_diversity_penalty = Some (Fin 0),
        cfg_forced_bos_token_id = None,
        cfg_forced_eos_token_id = None,
        cfg_remove_invalid_values = Some False,
        cfg_exponential_decay_length_penalty = None,
        cfg_suppress_tokens = None,
        cfg_begin_suppress_tokens = None,
        cfg_forced_decoder_ids = None \<rparr>"

definition example_bs_args :: "nat bs_args" where
  "example_bs_args =
     \<lparr> bs_logits_processor = None,
        bs_stopping_criteria = None,
        bs_max_length = None,
        bs_pad_token_id = None,
        bs_eos_token_id = None,
        bs_output_attentions = None,
        bs_output_hidden_states = None,
        bs_output_scores = None,
        bs_return_dict_in_generate = None,
        bs_synced_gpus = Some False,
        bs_past = None \<rparr>"

definition example_gen_args :: "nat gen_args" where
  "example_gen_args =
     \<lparr> g_input_ids = Mat 3 [[7, 8, 9]],
        g_max_length = None,
        g_min_length = None,
        g_early_stopping = None,
        g_num_beams = None,
        g_repetition_penalty = None,
        g_pad_token_id = None,
        g_eos_token_id = None,
        g_length_penalty = None,
        g_no_repeat_ngram_size = None,
        g_encoder_no_repeat_ngram_size = None,
        g_num_return_sequences = None,
        g_max_time = None,
        g_max_new_tokens = None,
        g_num_beam_groups = None,
        g_diversity_penalty = None,
        g_logits_processor = Some [],
        g_renormalize_logits = None,
        g_stopping_criteria = Some [],
        g_output_scores = None,
        g_return_dict_in_generate = None,
        g_forced_bos_token_id = None,
        g_forced_eos_token_id = None,
        g_remove_invalid_values = None,
        g_synced_gpus = Some False,
        g_exponential_decay_length_penalty = None,
        g_suppress_tokens = None,
        g_begin_suppress_tokens = None,
        g_forced_decoder_ids = None,
        g_kwargs_past = None,
        g_kwargs_encoder_outputs = False \<rparr>"

definition example_gen_collab :: "(unit, nat) gen_collab" where
  "example_gen_collab =
     \<lparr> gc_encode = Inr (),
        gc_expand = (\<lambda>ctx idx. Inr ()),
        gc_new_scorer = (\<lambda>batch_size num_beams length_penalty early_stopping keep. Inr 0),
        gc_check = (\<lambda>p. None),
        gc_has_text_image = True,
        gc_has_entity_image = True \<rparr>"

definition example_lp_args :: lp_args where
  "example_lp_args =
     \<lparr> lp_repetition_penalty = Some (Fin (6 / 5)),
        lp_no_repeat_ngram_size = Some 3,
        lp_encoder_no_repeat_ngram_size = None,
        lp_input_ids_seq_length = 1,
        lp_encoder_input_ids = Mat 3 [[7, 8, 9]],
        lp_bad_words_ids = None,
        lp_min_length = Some 5,
        lp_max_length = Some 20,
        lp_eos_token_id = None,
        lp_forced_bos_token_id = None,
        lp_forced_eos_token_id = Some 2,
        lp_prefix_allowed_tokens_fn = None,
        lp_num_beams = 2,
        lp_num_beam_groups = 1,
        lp_diversity_penalty = None,
        lp_remove_invalid_values = None,
        lp_exponential_decay_length_penalty = None,
        lp_logits_processor = Some [CustomProcessor 7],
        lp_renormalize_logits = Some True,
        lp_suppress_tokens = None,
        lp_begin_suppress_tokens = None,
        lp_forced_decoder_ids = None \<rparr>"

definition example_scores :: "pyfloat mat" where
  "example_scores = Mat 3 [[Fin (- 1), Fin (- 2), Fin (- 3)], [Fin (- 1), Fin (- 2), Fin (- 4)]]"

text \<open>
  The values before the loop and the variables at loop entry of a search over one
  example with two beams, from the start token \<open>2\<close>.
\<close>

definition example_env :: "stopping_criterion list \<Rightarrow> bool \<Rightarrow> bs_env" where
  "example_env criteria synced_gpus =
     \<lparr> env_logits_processor = [],
        env_stopping_criteria = criteria,
        env_pad_token_id = Some 1,
        env_eos_token_id = Some 2,
        env_output_scores = False,
        env_output_attentions = False,
        env_output_hidden_states = False,
        env_return_dict_in_generate = False,
        env_synced_gpus = synced_gpus,
        env_batch_size = 1,
        env_num_beams = 2,
        env_warnings = [] \<rparr>"

definition example_state :: "(nat, nat) bs_state" where
  "example_state =
     \<lparr> st_input_ids = Mat 1 [[2], [2]],
        st_beam_scores = [Fin 0, Fin (- 1000000000)],
        st_scorer = 0,
        st_past = None,
        st_cur_len = 1,
        st_this_peer_finished = False,
        st_scores = None,
        st_beam_indices = None,
        st_next_tokens = None,
        st_next_indices = None,
        st_clock = 0 \<rparr>"

text \<open>The variables after one step on \<open>example_scores\<close>.\<close>

definition example_state_1 :: "(nat, nat) bs_state" where
  "example_state_1 =
     \<lparr> st_input_ids = Mat 2 [[2, 0], [2, 1]],
        st_beam_scores = [Fin (- 1), Fin (- 2)],
        st_scorer = 1,
        st_past = None,
        st_cur_len = 2,
        st_this_peer_finished = False,
        st_scores = None,
        st_beam_indices = None,
        st_next_tokens = Some (Mat 4 [[0, 1, 2, 0]]),
        st_next_indices = Some (Mat 4 [[0, 0, 0, 1]]),
        st_clock = 1 \<rparr>"

text \<open>
  Scores as a log-softmax gives them when the logits of the first beam mask the last
  token and the logits of the second beam hold a NaN.
\<close>

definition example_scores_nan :: "pyfloat mat" where
  "example_scores_nan = Mat 3 [[Fin (- 1), Fin (- 2), NegInf], [NaN, NaN, NaN]]"


section \<open>Predicates of the proofs\<close>

text \<open>\<open>returns Q m\<close>: if \<open>m\<close> does not raise, its value satisfies \<open>Q\<close>.\<close>

definition returns :: "('a \<Rightarrow> bool) \<Rightarrow> error + 'a \<Rightarrow> bool" where
  "returns Q m = (\<forall>x. m = Inr x \<longrightarrow> Q x)"

text \<open>
  The invariant of the registration: the chain so far is in registration order, holds
  only classes before position \<open>r\<close>, and holds the rule that removes invalid values only
  if \<open>R\<close>; a stage leaves the chain or appends one rule of position \<open>r\<close>.
\<close>

definition ranked_below :: "bool \<Rightarrow> nat \<Rightarrow> logits_processor list \<Rightarrow> bool" where
  "ranked_below R r ps = (in_registration_order ps
      \<and> (\<forall>p \<in> set ps. registration_rank (type_of_processor p) < r)
      \<and> (InfNanRemoveLogitsProcessor \<in> set ps \<longrightarrow> R))"

definition stage_of :: "bool \<Rightarrow> nat \<Rightarrow> logits_processor list \<Rightarrow> logits_processor list \<Rightarrow> bool" where
  "stage_of R r ps ps' =
     (ps' = ps \<or> (\<exists>p. ps' = ps @ [p] \<and> registration_rank (type_of_processor p) = r
                       \<and> (p = InfNanRemoveLogitsProcessor \<longrightarrow> R)))"


text \<open>
  The beam rows of example \<open>e\<close>, one after the other: the row of the example once the
  scores are viewed with one row per example.
\<close>

definition flat_row :: "'a mat \<Rightarrow> nat \<Rightarrow> nat \<Rightarrow> 'a list" where
  "flat_row scores num_beams e = concat (take num_beams (drop (e * num_beams) (rows scores)))"

text \<open>A score that top-k ranks strictly above \<open>-1e9\<close>, the initial score of the other beams.\<close>

definition above_floor :: "pyfloat \<Rightarrow> bool" where
  "above_floor x = (\<not> topk_ge (Fin (- 1000000000)) x)"

section \<open>torch.topk on the CPU\<close>

text \<open>
  The selection that \<^verbatim>\<open>torch.topk(t, k, dim=1, largest=True, sorted=True)\<close> makes in one
  row on the CPU, as ATen's kernel computes it: the row becomes a queue of (score,
  position) pairs; for \<open>k * 64 \<le> n\<close> the queue goes through \<^verbatim>\<open>std::partial_sort\<close>,
  otherwise through \<^verbatim>\<open>std::nth_element\<close> at \<open>k - 1\<close> and \<^verbatim>\<open>std::sort\<close> of the \<open>k - 1\<close> entries
  before it; the first \<open>k\<close> pairs are the result. The comparison puts NaN before every
  other score and otherwise the greater score first; it never looks at the position. The
  three library routines are those of the GNU C++ library, on a list for the array and
  indices for the iterators.
\<close>

definition topk_comp :: "pyfloat \<times> nat \<Rightarrow> pyfloat \<times> nat \<Rightarrow> bool" where
  "topk_comp x y = ((fst x = NaN \<and> fst y \<noteq> NaN) \<or> float_gt (fst x) (fst y))"

text \<open>\<^verbatim>\<open>std::__lg\<close>: the position of the highest bit.\<close>

fun lg :: "nat \<Rightarrow> nat" where
  "lg n = (if n < 2 then 0 else Suc (lg (n div 2)))"

definition iter_swap :: "'a list \<Rightarrow> nat \<Rightarrow> nat \<Rightarrow> 'a list" where
  "iter_swap a i j = a[i := a ! j, j := a ! i]"

subsection \<open>Heaps\<close>

function push_heap :: "('a \<Rightarrow> 'a \<Rightarrow> bool) \<Rightarrow> 'a list \<Rightarrow> nat \<Rightarrow> nat \<Rightarrow> nat \<Rightarrow> 'a \<Rightarrow> 'a list" where
  "push_heap cmp a first holeIndex topIndex val =
     (if holeIndex > topIndex \<and> cmp (a ! (first + (holeIndex - 1) div 2)) val
      then push_heap cmp (a[first + holeIndex := a ! (first + (holeIndex - 1) div 2)]) first
             ((holeIndex - 1) div 2) topIndex val
      else a[first + holeIndex := val])"
  by pat_completeness auto
termination
  by (relation "measure (\<lambda>(cmp, a, first, holeIndex, topIndex, val). holeIndex)") auto

text \<open>
  The descent of \<^verbatim>\<open>std::__adjust_heap\<close>: the hole moves to its better child while it has
  two children. The second child of the loop is the hole itself after each pass.
\<close>

function adjust_heap_descend :: "('a \<Rightarrow> 'a \<Rightarrow> bool) \<Rightarrow> 'a list \<Rightarrow> nat \<Rightarrow> nat \<Rightarrow> nat \<Rightarrow> 'a list \<times> nat" where
  "adjust_heap_descend cmp a first holeIndex len =
     (if holeIndex < (len - 1) div 2
      then let secondChild = 2 * (holeIndex + 1);
               secondChild = (if cmp (a ! (first + secondChild)) (a ! (first + (secondChild - 1)))
                              then secondChild - 1 else secondChild)
           in adjust_heap_descend cmp (a[first + holeIndex := a ! (first + secondChild)]) first
                secondChild len
      else (a, holeIndex))"
  by pat_completeness auto
termination
  by (relation "measure (\<lambda>(cmp, a, first, holeIndex, len). len - holeIndex)") auto

definition adjust_heap :: "('a \<Rightarrow> 'a \<Rightarrow> bool) \<Rightarrow> 'a list \<Rightarrow> nat \<Rightarrow> nat \<Rightarrow> nat \<Rightarrow> 'a \<Rightarrow> 'a list" where
  "adjust_heap cmp a first holeIndex len val =
     (let topIndex = holeIndex in
      case adjust_heap_descend cmp a first holeIndex len of (a, holeIndex) \<Rightarrow>
      case (if even len \<and> 2 \<le> len \<and> holeIndex = (len - 2) div 2
            then (a[first + holeIndex := a ! (first + (2 * (holeIndex + 1) - 1))],
                  2 * (holeIndex + 1) - 1)
            else (a, holeIndex)) of (a, holeIndex) \<Rightarrow>
      push_heap cmp a first holeIndex topIndex val)"

fun make_heap_loop :: "('a \<Rightarrow> 'a \<Rightarrow> bool) \<Rightarrow> 'a list \<Rightarrow> nat \<Rightarrow> nat \<Rightarrow> nat \<Rightarrow> 'a list" where
  "make_heap_loop cmp a first len 0 = adjust_heap cmp a first 0 len (a ! first)"
| "make_heap_loop cmp a first len (Suc parent) =
     make_heap_loop cmp (adjust_heap cmp a first (Suc parent) len (a ! (first + Suc parent)))
       first len parent"

definition make_heap :: "('a \<Rightarrow> 'a \<Rightarrow> bool) \<Rightarrow> 'a list \<Rightarrow> nat \<Rightarrow> nat \<Rightarrow> 'a list" where
  "make_heap cmp a first lst =
     (if lst - first < 2 then a
      else make_heap_loop cmp a first (lst - first) ((lst - first - 2) div 2))"

definition pop_heap :: "('a \<Rightarrow> 'a \<Rightarrow> bool) \<Rightarrow> 'a list \<Rightarrow> nat \<Rightarrow> nat \<Rightarrow> nat \<Rightarrow> 'a list" where
  "pop_heap cmp a first lst result =
     (let val = a ! result in
      adjust_heap cmp (a[result := a ! first]) first 0 (lst - first) val)"

definition heap_select :: "('a \<Rightarrow> 'a \<Rightarrow> bool) \<Rightarrow> 'a list \<Rightarrow> nat \<Rightarrow> nat \<Rightarrow> nat \<Rightarrow> 'a list" where
  "heap_select cmp a first middle lst =
     foldl (\<lambda>a i. if cmp (a ! i) (a ! first) then pop_heap cmp a first middle i else a)
       (make_heap cmp a first middle) [middle..<lst]"

text \<open>\<^verbatim>\<open>std::__sort_heap\<close>, on the number of entries still in the heap.\<close>

fun sort_heap_loop :: "('a \<Rightarrow> 'a \<Rightarrow> bool) \<Rightarrow> 'a list \<Rightarrow> nat \<Rightarrow> nat \<Rightarrow> 'a list" where
  "sort_heap_loop cmp a first 0 = a"
| "sort_heap_loop cmp a first (Suc n) =
     (if Suc n > 1
      then sort_heap_loop cmp (pop_heap cmp a first (first + n) (first + n)) first n
      else a)"

definition sort_heap :: "('a \<Rightarrow> 'a \<Rightarrow> bool) \<Rightarrow> 'a list \<Rightarrow> nat \<Rightarrow> nat \<Rightarrow> 'a list" where
  "sort_heap cmp a first lst = sort_heap_loop cmp a first (lst - first)"

definition partial_sort :: "('a \<Rightarrow> 'a \<Rightarrow> bool) \<Rightarrow> 'a list \<Rightarrow> nat \<Rightarrow> nat \<Rightarrow> nat \<Rightarrow> 'a list" where
  "partial_sort cmp a first middle lst =
     sort_heap cmp (heap_select cmp a first middle lst) first middle"

subsection \<open>Partition around the median of three\<close>

definition move_median_to_first ::
  "('a \<Rightarrow> 'a \<Rightarrow> bool) \<Rightarrow> 'a list \<Rightarrow> nat \<Rightarrow> nat \<Rightarrow> nat \<Rightarrow> nat \<Rightarrow> 'a list" where
  "move_median_to_first cmp a result x y z =
     (if cmp (a ! x) (a ! y)
      then (if cmp (a ! y) (a ! z) then iter_swap a result y
            else if cmp (a ! x) (a ! z) then iter_swap a result z
            else iter_swap a result x)
      else if cmp (a ! x) (a ! z) then iter_swap a result x
      else if cmp (a ! y) (a ! z) then iter_swap a result z
      else iter_swap a result y)"

text \<open>
  The two scans of \<^verbatim>\<open>std::__unguarded_partition\<close>. The library relies on the pivot to stop
  them inside the range; the model stops them at the ends of the list as well.
\<close>

function scan_up :: "('a \<Rightarrow> 'a \<Rightarrow> bool) \<Rightarrow> 'a list \<Rightarrow> nat \<Rightarrow> nat \<Rightarrow> nat" where
  "scan_up cmp a pivot first =
     (if first < length a \<and> cmp (a ! first) (a ! pivot) then scan_up cmp a pivot (Suc first)
      else first)"
  by pat_completeness auto
termination
  by (relation "measure (\<lambda>(cmp, a, pivot, first). length a - first)") auto

fun scan_down :: "('a \<Rightarrow> 'a \<Rightarrow> bool) \<Rightarrow> 'a list \<Rightarrow> nat \<Rightarrow> nat \<Rightarrow> nat" where
  "scan_down cmp a pivot 0 = 0"
| "scan_down cmp a pivot (Suc lst) =
     (if cmp (a ! pivot) (a ! Suc lst) then scan_down cmp a pivot lst else Suc lst)"

function unguarded_partition ::
  "('a \<Rightarrow> 'a \<Rightarrow> bool) \<Rightarrow> 'a list \<Rightarrow> nat \<Rightarrow> nat \<Rightarrow> nat \<Rightarrow> 'a list \<times> nat" where
  "unguarded_partition cmp a first lst pivot =
     (if \<not> scan_up cmp a pivot first < scan_down cmp a pivot (lst - 1)
      then (a, scan_up cmp a pivot first)
      else unguarded_partition cmp
             (iter_swap a (scan_up cmp a pivot first) (scan_down cmp a pivot (lst - 1)))
             (Suc (scan_up cmp a pivot first)) (scan_down cmp a pivot (lst - 1)) pivot)"
  by pat_completeness auto
termination
proof (relation "measure (\<lambda>(cmp, a, first, lst, pivot). lst)", goal_cases)
  case 1
  show ?case by simp
next
  case (2 cmp a first lst pivot)
  have down: "scan_down cmp a pivot j \<le> j" for j
    by (induction j) auto
  from 2 have "0 < scan_down cmp a pivot (lst - 1)" by simp
  then have "0 < lst"
    by (cases lst) auto
  with down [of "lst - 1"] show ?case by simp
qed

definition unguarded_partition_pivot ::
  "('a \<Rightarrow> 'a \<Rightarrow> bool) \<Rightarrow> 'a list \<Rightarrow> nat \<Rightarrow> nat \<Rightarrow> 'a list \<times> nat" where
  "unguarded_partition_pivot cmp a first lst =
     (let mid = first + (lst - first) div 2;
          a = move_median_to_first cmp a first (first + 1) mid (lst - 1)
      in unguarded_partition cmp a (first + 1) lst first)"

subsection \<open>Insertion sort\<close>

text \<open>
  \<^verbatim>\<open>std::__unguarded_linear_insert\<close>: the value at \<open>lst\<close> moves down past every entry it
  comes before.
\<close>

fun linear_insert_loop :: "('a \<Rightarrow> 'a \<Rightarrow> bool) \<Rightarrow> 'a list \<Rightarrow> 'a \<Rightarrow> nat \<Rightarrow> 'a list" where
  "linear_insert_loop cmp a val 0 = a[0 := val]"
| "linear_insert_loop cmp a val (Suc next) =
     (if cmp val (a ! next) then linear_insert_loop cmp (a[Suc next := a ! next]) val next
      else a[Suc next := val])"

definition unguarded_linear_insert :: "('a \<Rightarrow> 'a \<Rightarrow> bool) \<Rightarrow> 'a list \<Rightarrow> nat \<Rightarrow> 'a list" where
  "unguarded_linear_insert cmp a lst = linear_insert_loop cmp a (a ! lst) lst"

definition insertion_sort :: "('a \<Rightarrow> 'a \<Rightarrow> bool) \<Rightarrow> 'a list \<Rightarrow> nat \<Rightarrow> nat \<Rightarrow> 'a list" where
  "insertion_sort cmp a first lst =
     foldl (\<lambda>a i. if cmp (a ! i) (a ! first)
                  then take first a @ [a ! i] @ take (i - first) (drop first a) @ drop (Suc i) a
                  else unguarded_linear_insert cmp a i)
       a [Suc first..<lst]"

definition unguarded_insertion_sort :: "('a \<Rightarrow> 'a \<Rightarrow> bool) \<Rightarrow> 'a list \<Rightarrow> nat \<Rightarrow> nat \<Rightarrow> 'a list" where
  "unguarded_insertion_sort cmp a first lst =
     foldl (\<lambda>a i. unguarded_linear_insert cmp a i) a [first..<lst]"

subsection \<open>Selection and sorting\<close>

text \<open>
  \<^verbatim>\<open>std::__introselect\<close> and \<^verbatim>\<open>std::__introsort_loop\<close>, on the depth limit, which every pass
  of their loops decrements.
\<close>

primrec introselect :: "nat \<Rightarrow> ('a \<Rightarrow> 'a \<Rightarrow> bool) \<Rightarrow> 'a list \<Rightarrow> nat \<Rightarrow> nat \<Rightarrow> nat \<Rightarrow> 'a list" where
  "introselect 0 cmp a first kth lst =
     (if lst - first > 3 then iter_swap (heap_select cmp a first (kth + 1) lst) first kth
      else insertion_sort cmp a first lst)"
| "introselect (Suc depth_limit) cmp a first kth lst =
     (if lst - first > 3
      then (case unguarded_partition_pivot cmp a first lst of (a, cutp) \<Rightarrow>
              if cutp \<le> kth then introselect depth_limit cmp a cutp kth lst
              else introselect depth_limit cmp a first kth cutp)
      else insertion_sort cmp a first lst)"

definition nth_element :: "('a \<Rightarrow> 'a \<Rightarrow> bool) \<Rightarrow> 'a list \<Rightarrow> nat \<Rightarrow> nat \<Rightarrow> nat \<Rightarrow> 'a list" where
  "nth_element cmp a first kth lst =
     (if first = lst \<or> kth = lst then a
      else introselect (lg (lst - first) * 2) cmp a first kth lst)"

primrec introsort_loop :: "nat \<Rightarrow> ('a \<Rightarrow> 'a \<Rightarrow> bool) \<Rightarrow> 'a list \<Rightarrow> nat \<Rightarrow> nat \<Rightarrow> 'a list" where
  "introsort_loop 0 cmp a first lst =
     (if lst - first > 16 then partial_sort cmp a first lst lst else a)"
| "introsort_loop (Suc depth_limit) cmp a first lst =
     (if lst - first > 16
      then (case unguarded_partition_pivot cmp a first lst of (a, cutp) \<Rightarrow>
              introsort_loop depth_limit cmp (introsort_loop depth_limit cmp a cutp lst) first cutp)
      else a)"

definition final_insertion_sort :: "('a \<Rightarrow> 'a \<Rightarrow> bool) \<Rightarrow> 'a list \<Rightarrow> nat \<Rightarrow> nat \<Rightarrow> 'a list" where
  "final_insertion_sort cmp a first lst =
     (if lst - first > 16
      then unguarded_insertion_sort cmp (insertion_sort cmp a first (first + 16)) (first + 16) lst
      else insertion_sort cmp a first lst)"

definition std_sort :: "('a \<Rightarrow> 'a \<Rightarrow> bool) \<Rightarrow> 'a list \<Rightarrow> nat \<Rightarrow> nat \<Rightarrow> 'a list" where
  "std_sort cmp a first lst =
     (if first \<noteq> lst
      then final_insertion_sort cmp (introsort_loop (lg (lst - first) * 2) cmp a first lst) first lst
      else a)"

subsection \<open>The kernel\<close>

definition cpu_topk :: "pyfloat list \<Rightarrow> nat \<Rightarrow> pyfloat list \<times> nat list" where
  "cpu_topk xs k =
     (if k = 0 then ([], [])
      else
        let n = length xs;
            queue = zip xs [0..<n];
            queue = (if k * 64 \<le> n then partial_sort topk_comp queue 0 k n
                     else std_sort topk_comp (nth_element topk_comp queue 0 (k - 1) n) 0 (k - 1))
        in (map fst (take k queue), map snd (take k queue)))"


section \<open>Stand-ins for the first step of a search\<close>

text \<open>
  The collaborators of \<open>example_collab\<close> with the CPU kernel of top-k, for a search over one
  example with two beams that is done after its first step.
\<close>

definition cpu_collab :: "pyfloat mat \<Rightarrow> (unit, nat) collab" where
  "cpu_collab scores = (example_collab scores 2 1 0)\<lparr> c_topk_kernel := cpu_topk \<rparr>"

text \<open>The values before the loop as \<open>beam_search\<close> leaves them for \<open>example_bs_args\<close>.\<close>

definition entry_env :: bs_env where
  "entry_env = (example_env [] False)
     \<lparr> env_warnings := [''You don't have defined any stopping_criteria, this will likely loop forever''] \<rparr>"

text \<open>
  Scores over four tokens in which every token of the first beam is live, and scores
  over three tokens as the rule that forces the first token leaves them: token \<open>0\<close> at
  \<open>0\<close>, every other token at minus infinity.
\<close>

definition live_scores :: "pyfloat mat" where
  "live_scores = Mat 4 [[Fin (- 1), Fin (- 2), Fin (- 3), Fin (- 4)],
                        [Fin (- 64), Fin (- 128), Fin (- 192), Fin (- 256)]]"

definition forced_bos_scores :: "pyfloat mat" where
  "forced_bos_scores = Mat 3 [[Fin 0, NegInf, NegInf], [Fin 0, NegInf, NegInf]]"


section \<open>Reasoning about results\<close>

lemma bindE_Inr [simp]: "bindE (Inr x) f = f x"
  by (simp add: bindE_def)

lemma bindE_Inl [simp]: "bindE (Inl e) f = Inl e"
  by (simp add: bindE_def)

lemma bindE_InrE:
  assumes "bindE m f = Inr y"
  obtains x where "m = Inr x" and "f x = Inr y"
  using assms by (cases m) auto

lemma returns_bindE:
  assumes "returns P m" and "\<And>x. P x \<Longrightarrow> returns Q (f x)"
  shows "returns Q (bindE m f)"
  using assms by (cases m) (auto simp: returns_def)

lemma returns_Inl: "returns Q (Inl e)"
  by (simp add: returns_def)

lemma mapE_closed:
  assumes "\<forall>x \<in> set xs. f x = Inr (g x)"
  shows "mapE f xs = Inr (map g xs)"
  using assms by (induction xs) auto

text \<open>Rows of one length, read through their concatenation.\<close>

lemma concat_equal_rows_nth:
  assumes "\<forall>r \<in> set rs. length r = c" and "b < length rs" and "t < c"
  shows "concat rs ! (b * c + t) = rs ! b ! t"
  using assms
proof (induction rs arbitrary: b)
  case Nil
  then show ?case by simp
next
  case (Cons r rs)
  show ?case
  proof (cases b)
    case 0
    with Cons.prems show ?thesis by (simp add: nth_append)
  next
    case (Suc b')
    with Cons.prems have "concat rs ! (b' * c + t) = rs ! b' ! t"
      by (intro Cons.IH) auto
    with Suc Cons.prems show ?thesis by (simp add: nth_append)
  qed
qed

lemma length_concat_equal_rows:
  assumes "\<forall>r \<in> set rs. length r = c"
  shows "length (concat rs) = length rs * c"
  using assms by (induction rs) auto

lemma drop_concat_equal_rows:
  assumes "\<forall>r \<in> set rs. length r = c"
  shows "drop (n * c) (concat rs) = concat (drop n rs)"
  using assms
proof (induction rs arbitrary: n)
  case Nil
  then show ?case by simp
next
  case (Cons r rs)
  then show ?case by (cases n) auto
qed

lemma take_concat_equal_rows:
  assumes "\<forall>r \<in> set rs. length r = c"
  shows "take (n * c) (concat rs) = concat (take n rs)"
  using assms
proof (induction rs arbitrary: n)
  case Nil
  then show ?case by simp
next
  case (Cons r rs)
  then show ?case by (cases n) auto
qed


text \<open>The view with one row per example.\<close>

lemma view_row_is_example_block:
  assumes len: "\<forall>r \<in> set rs. length r = v"
  shows "take (nb * v) (drop (e * (nb * v)) (concat rs)) = concat (take nb (drop (e * nb) rs))"
proof -
  have "drop (e * (nb * v)) (concat rs) = concat (drop (e * nb) rs)"
    using drop_concat_equal_rows [OF len, of "e * nb"] by (simp add: mult.assoc)
  moreover have "\<forall>r \<in> set (drop (e * nb) rs). length r = v"
    using len by (auto dest: in_set_dropD)
  ultimately show ?thesis
    by (simp add: take_concat_equal_rows)
qed

lemma view2_examples:
  assumes wf: "wf_mat scores" and n: "nrows scores = batch_size * num_beams"
  shows "view2 scores batch_size (num_beams * ncols scores) =
     Inr (Mat (num_beams * ncols scores) (map (flat_row scores num_beams) [0..<batch_size]))"
proof -
  have len: "\<forall>r \<in> set (rows scores). length r = ncols scores"
    using wf by (simp add: wf_mat_def list_all_iff)
  show ?thesis
    using n by (simp add: view2_def view_row_is_example_block [OF len] mult.assoc flat_row_def)
qed

lemma flat_row_length:
  assumes wf: "wf_mat scores" and n: "nrows scores = b * nb" and e: "e < b"
  shows "length (flat_row scores nb e) = nb * ncols scores"
proof -
  let ?rs = "rows scores" and ?v = "ncols scores"
  have len: "\<forall>r \<in> set ?rs. length r = ?v"
    using wf by (simp add: wf_mat_def list_all_iff)
  have "\<forall>r \<in> set (take nb (drop (e * nb) ?rs)). length r = ?v"
    using len by (auto dest: in_set_takeD in_set_dropD)
  then have "length (concat (take nb (drop (e * nb) ?rs))) = length (take nb (drop (e * nb) ?rs)) * ?v"
    by (rule length_concat_equal_rows)
  moreover have "e * nb + nb \<le> b * nb"
  proof -
    from e have "Suc e \<le> b" by simp
    then have "Suc e * nb \<le> b * nb" by (rule mult_le_mono1)
    then show ?thesis by simp
  qed
  then have "length (take nb (drop (e * nb) ?rs)) = nb"
    using n by (simp add: nrows_def)
  ultimately show ?thesis by (simp add: flat_row_def)
qed

lemma flat_row_nth:
  assumes wf: "wf_mat scores" and n: "nrows scores = b * nb" and e: "e < b"
    and j: "j < nb * ncols scores"
  shows "j div ncols scores < nb \<and> j mod ncols scores < ncols scores
       \<and> flat_row scores nb e ! j = rows scores ! (e * nb + j div ncols scores) ! (j mod ncols scores)"
proof -
  let ?rs = "rows scores" and ?v = "ncols scores"
  have len: "\<forall>r \<in> set ?rs. length r = ?v"
    using wf by (simp add: wf_mat_def list_all_iff)
  from j have v: "0 < ?v" by (cases ?v) auto
  from j have d: "j div ?v < nb"
    by (simp add: less_mult_imp_div_less)
  have m: "j mod ?v < ?v" using v by simp
  have le: "e * nb + nb \<le> b * nb"
  proof -
    from e have "Suc e \<le> b" by simp
    then have "Suc e * nb \<le> b * nb" by (rule mult_le_mono1)
    then show ?thesis by simp
  qed
  let ?blk = "take nb (drop (e * nb) ?rs)"
  have blen: "\<forall>r \<in> set ?blk. length r = ?v"
    using len by (auto dest: in_set_takeD in_set_dropD)
  have bl: "length ?blk = nb" using n le by (simp add: nrows_def)
  have "concat ?blk ! (j div ?v * ?v + j mod ?v) = ?blk ! (j div ?v) ! (j mod ?v)"
    using d m bl by (intro concat_equal_rows_nth [OF blen]) auto
  moreover have "?blk ! (j div ?v) = ?rs ! (e * nb + j div ?v)"
  proof -
    from e n have "e * nb \<le> length ?rs" by (simp add: nrows_def)
    from nth_drop [OF this, of "j div ?v"] d show ?thesis by simp
  qed
  ultimately show ?thesis using d m by (simp add: flat_row_def)
qed

text \<open>The candidates of a step, when top-k keeps its promise on the row of every example.\<close>

lemma topk_selectionD:
  assumes "topk_selection xs k (selector xs k)"
  shows "length (fst (selector xs k)) = k" and "length (snd (selector xs k)) = k"
    and "distinct (snd (selector xs k))"
    and "\<forall>j \<in> set (snd (selector xs k)). j < length xs"
    and "fst (selector xs k) = map (\<lambda>j. xs ! j) (snd (selector xs k))"
    and "sorted_wrt topk_ge (map (\<lambda>j. xs ! j) (snd (selector xs k)))"
    and "\<forall>i < length xs. i \<notin> set (snd (selector xs k))
           \<longrightarrow> (\<forall>j \<in> set (snd (selector xs k)). topk_ge (xs ! j) (xs ! i))"
  using assms by (cases "selector xs k"; auto simp: topk_selection_def list_all_iff)+

lemma select_candidates_run:
  assumes wf: "wf_mat scores" and n: "nrows scores = batch_size * num_beams"
    and k: "2 * num_beams \<le> num_beams * ncols scores"
    and sel: "\<forall>e < batch_size.
        topk_selection (flat_row scores num_beams e) (2 * num_beams)
          (selector (flat_row scores num_beams e) (2 * num_beams))"
  shows "select_candidates selector batch_size num_beams scores =
     Inr (Mat (2 * num_beams)
            (map (\<lambda>e. fst (selector (flat_row scores num_beams e) (2 * num_beams))) [0..<batch_size]),
          Mat (2 * num_beams)
            (map (\<lambda>e. map (\<lambda>j. int (j mod ncols scores))
                        (snd (selector (flat_row scores num_beams e) (2 * num_beams)))) [0..<batch_size]),
          Mat (2 * num_beams)
            (map (\<lambda>e. map (\<lambda>j. int (j div ncols scores))
                        (snd (selector (flat_row scores num_beams e) (2 * num_beams)))) [0..<batch_size]))"
proof -
  let ?v = "ncols scores"
  let ?k = "2 * num_beams"
  let ?sel = "\<lambda>e. selector (flat_row scores num_beams e) ?k"
  let ?vals = "Mat ?k (map (\<lambda>e. fst (?sel e)) [0..<batch_size])"
  let ?js = "Mat ?k (map (\<lambda>e. snd (?sel e)) [0..<batch_size])"
  have view: "view2 scores batch_size (num_beams * ?v) =
      Inr (Mat (num_beams * ?v) (map (flat_row scores num_beams) [0..<batch_size]))"
    by (rule view2_examples [OF wf n])
  have topk: "torch_topk selector (Mat (num_beams * ?v) (map (flat_row scores num_beams) [0..<batch_size])) ?k
      = Inr (?vals, ?js)"
    using k by (auto simp: torch_topk_def o_def)
  have nonzero: "\<not> (?v = 0 \<and> list_ex (\<lambda>r. r \<noteq> []) (rows ?js))"
  proof
    assume a: "?v = 0 \<and> list_ex (\<lambda>r. r \<noteq> []) (rows ?js)"
    with k have "num_beams = 0" by simp
    moreover from a obtain e where "e < batch_size" "snd (?sel e) \<noteq> []"
      by (auto simp: list_ex_iff)
    ultimately show False
      using topk_selectionD(2) [where selector = selector and xs = "flat_row scores num_beams e"
          and k = "2 * num_beams"] sel
      by simp
  qed
  show ?thesis
    unfolding select_candidates_def Let_def view
    using nonzero by (simp add: topk torch_int_div_def torch_remainder_def o_def)
qed

lemma select_candidates_raises:
  assumes wf: "wf_mat scores" and n: "nrows scores = batch_size * num_beams"
    and k: "num_beams * ncols scores < 2 * num_beams"
  shows "select_candidates selector batch_size num_beams scores =
     Inl (RuntimeError ''selected index k out of range'')"
  unfolding select_candidates_def Let_def view2_examples [OF wf n]
  using k by (simp add: torch_topk_def)

text \<open>The sums of the step.\<close>

lemma fadd_non_finite: "\<not> is_finite a \<Longrightarrow> \<not> is_finite (fadd a b)"
  by (cases a; cases b) auto

lemma add_beam_scores_same_shape:
  assumes wf: "wf_mat processed" and r: "nrows processed = nrows sc" and c: "ncols processed = ncols sc"
    and b: "length beam_scores = nrows sc"
  shows "add_beam_scores processed beam_scores sc =
     Inr (Mat (ncols processed) (map2 (\<lambda>row b. map (\<lambda>x. fadd x b) row) (rows processed) beam_scores))"
proof -
  have len: "length row = ncols sc" if "row \<in> set (rows processed)" for row
    using wf c that by (simp add: wf_mat_def list_all_iff)
  have rowsum: "map2 fadd row (replicate (ncols sc) x) = map (\<lambda>y. fadd y x) row"
    if "row \<in> set (rows processed)" for row x
  proof -
    have "replicate (ncols sc) x = map (\<lambda>y. x) row"
      using len [OF that] by (simp add: map_replicate_const)
    then show ?thesis
      by (simp add: zip_map2 zip_same_conv_map)
  qed
  have "map2 (map2 fadd) (rows processed) (map (replicate (ncols sc)) beam_scores)
      = map2 (\<lambda>row b. map (\<lambda>x. fadd x b) row) (rows processed) beam_scores"
    using rowsum by (auto simp: zip_map2 dest: set_zip_leftD)
  moreover have "map (expand_list (ncols sc)) (rows processed) = rows processed"
    using len by (intro map_idI) (simp add: expand_list_def)
  ultimately show ?thesis
    using r c b
    by (simp add: add_beam_scores_def broadcast_size_def expand_mat_def expand_list_def
        nrows_def Let_def o_def)
qed

lemma add_beam_scores_entries:
  assumes wf: "wf_mat processed" and r: "nrows processed = nrows sc" and c: "ncols processed = ncols sc"
    and b: "length beam_scores = nrows sc"
  shows "\<exists>m. add_beam_scores processed beam_scores sc = Inr m
      \<and> nrows m = nrows processed \<and> ncols m = ncols processed
      \<and> (\<forall>i < nrows m. \<forall>j < ncols m.
            rows m ! i ! j = fadd (rows processed ! i ! j) (beam_scores ! i)
          \<and> (\<not> is_finite (rows processed ! i ! j) \<longrightarrow> \<not> is_finite (rows m ! i ! j)))"
proof -
  let ?m = "Mat (ncols processed) (map2 (\<lambda>row b. map (\<lambda>x. fadd x b) row) (rows processed) beam_scores)"
  have run: "add_beam_scores processed beam_scores sc = Inr ?m"
    by (rule add_beam_scores_same_shape [OF wf r c b])
  have len: "length (rows processed ! i) = ncols processed" if "i < nrows processed" for i
    using wf that by (simp add: wf_mat_def list_all_iff nrows_def)
  have ent: "rows ?m ! i ! j = fadd (rows processed ! i ! j) (beam_scores ! i)"
    if "i < nrows processed" "j < ncols processed" for i j
    using that len [of i] r b by (simp add: nrows_def)
  show ?thesis
    using r b ent by (intro exI [of _ ?m]) (simp add: run nrows_def fadd_non_finite)
qed

lemma add_beam_scores_wf:
  assumes wf: "wf_mat processed" and r: "nrows processed = nrows sc" and c: "ncols processed = ncols sc"
    and b: "length beam_scores = nrows sc"
    and m: "add_beam_scores processed beam_scores sc = Inr m"
  shows "wf_mat m"
  using m wf unfolding add_beam_scores_same_shape [OF wf r c b]
  by (auto simp: wf_mat_def list_all_iff dest!: set_zip_leftD)

section \<open>shift\_tokens\_right: the shifted matrix\<close>

lemma shift_tokens_right_closed:
  assumes "wf_mat input_ids" and "int64 s"
  shows "shift_tokens_right input_ids pad_token_id s =
     (if ncols input_ids = 0 then Inl (IndexError ''index 0 is out of bounds for dimension 1 with size 0'')
      else case pad_token_id of
         None \<Rightarrow> Inl (ValueError ''self.model.config.pad_token_id has to be defined.'')
       | Some pad \<Rightarrow>
           if \<not> int64 pad
           then Inl (RuntimeError ''value cannot be converted to type int64_t without overflow'')
           else Inr (Mat (ncols input_ids)
            (map (\<lambda>r. map (\<lambda>a. if a = - 100 then pad else a) (s # butlast r)) (rows input_ids))))"
proof -
  have row: "(take 1 (replicate (length r) (0::int)) @ butlast r)[0 := s] = s # butlast r"
    if "length r = ncols input_ids" "ncols input_ids \<noteq> 0" for r
    using that by (cases r) auto
  have "map (\<lambda>x. (take 1 (replicate (length x) (0::int)) @ butlast x)[0 := s]) (rows input_ids)
      = map (\<lambda>r. s # butlast r) (rows input_ids)" if "ncols input_ids \<noteq> 0"
    using assms(1) that row by (auto simp: wf_mat_def list_all_iff)
  then show ?thesis
    using assms(2)
    by (auto simp: shift_tokens_right_def assign_col0_def assign_from_col1_def new_zeros_def
        masked_fill_eq_def Let_def zip_map1 zip_same_conv_map map2_map_map o_def split: option.splits)
qed

lemma shift_tokens_right_overflow:
  assumes "\<not> int64 s"
  shows "shift_tokens_right input_ids pad_token_id s = Inl (RuntimeError ''Overflow when unpacking long'')"
  using assms by (simp add: shift_tokens_right_def assign_col0_def Let_def)

text \<open>
  Claim C10, as the code has it. The input ids are a tensor of 64-bit integers, and the
  start token and the pad token are written into it, so the claim is about tokens in
  the 64-bit range. For such tokens and a matrix with at least one column, the result
  has the shape of the input (and is again a tensor of 64-bit integers); column 0 holds
  \<open>decoder_start_token_id\<close>, or the pad token when \<open>decoder_start_token_id\<close> is itself
  \<open>-100\<close> (the replacement runs over the whole shifted matrix); columns \<open>1..n-1\<close> hold the
  input's columns \<open>0..n-2\<close> with every \<open>-100\<close> replaced by the pad token. Without a pad
  token the call raises the ValueError. On a matrix with no column the write to column 0
  raises an IndexError, before the pad token is looked at. A start token outside the
  64-bit range raises a RuntimeError at the write to column 0, and a pad token outside
  that range makes the call raise instead of returning a matrix.
\<close>

theorem shift_tokens_right_shape_and_columns:
  assumes lt: "long_tensor input_ids"
  shows "(int64 s \<and> ncols input_ids = 0 \<longrightarrow>
            shift_tokens_right input_ids pad_token_id s =
              Inl (IndexError ''index 0 is out of bounds for dimension 1 with size 0''))
       \<and> (\<not> int64 s \<and> 0 < ncols input_ids \<longrightarrow>
            shift_tokens_right input_ids pad_token_id s =
              Inl (RuntimeError ''Overflow when unpacking long''))
       \<and> (int64 s \<and> 0 < ncols input_ids \<longrightarrow>
            shift_tokens_right input_ids None s =
              Inl (ValueError ''self.model.config.pad_token_id has to be defined.'')
          \<and> (\<not> int64 pad \<longrightarrow> (\<exists>e. shift_tokens_right input_ids (Some pad) s = Inl e))
          \<and> (int64 pad \<longrightarrow>
               (\<exists>out. shift_tokens_right input_ids (Some pad) s = Inr out
                \<and> ncols out = ncols input_ids \<and> nrows out = nrows input_ids \<and> long_tensor out
                \<and> (\<forall>i < nrows out.
                       rows out ! i ! 0 = (if s = - 100 then pad else s)
                     \<and> (\<forall>j. 0 < j \<and> j < ncols out \<longrightarrow>
                          rows out ! i ! j =
                            (if rows input_ids ! i ! (j - 1) = - 100 then pad
                             else rows input_ids ! i ! (j - 1)))))))"
proof (intro conjI impI)
  assume "int64 s \<and> ncols input_ids = 0"
  then show "shift_tokens_right input_ids pad_token_id s =
      Inl (IndexError ''index 0 is out of bounds for dimension 1 with size 0'')"
    using lt by (simp add: shift_tokens_right_closed long_tensor_def)
next
  assume "\<not> int64 s \<and> 0 < ncols input_ids"
  then show "shift_tokens_right input_ids pad_token_id s =
      Inl (RuntimeError ''Overflow when unpacking long'')"
    by (simp add: shift_tokens_right_overflow)
next
  assume "int64 s \<and> 0 < ncols input_ids"
  then show "shift_tokens_right input_ids None s =
      Inl (ValueError ''self.model.config.pad_token_id has to be defined.'')"
    using lt by (simp add: shift_tokens_right_closed long_tensor_def)
next
  assume "int64 s \<and> 0 < ncols input_ids" and "\<not> int64 pad"
  then show "\<exists>e. shift_tokens_right input_ids (Some pad) s = Inl e"
    using lt by (simp add: shift_tokens_right_closed long_tensor_def)
next
  assume h: "int64 s \<and> 0 < ncols input_ids" and p: "int64 pad"
  from h have s: "int64 s" and pos: "0 < ncols input_ids" by simp_all
  from lt have wf: "wf_mat input_ids" by (simp add: long_tensor_def)
  let ?f = "\<lambda>a. if a = - 100 then pad else a"
  let ?out = "Mat (ncols input_ids) (map (\<lambda>r. map ?f (s # butlast r)) (rows input_ids))"
  have eq: "shift_tokens_right input_ids (Some pad) s = Inr ?out"
    using pos p by (simp add: shift_tokens_right_closed [OF wf s])
  have len: "length r = ncols input_ids" if "r \<in> set (rows input_ids)" for r
    using wf that by (simp add: wf_mat_def list_all_iff)
  have ent: "int64 a" if "r \<in> set (rows input_ids)" "a \<in> set (butlast r)" for r a
    using lt that by (auto simp: long_tensor_def list_all_iff dest: in_set_butlastD)
  have wfo: "long_tensor ?out"
    using pos len ent s p by (auto simp: long_tensor_def wf_mat_def list_all_iff)
  have cols: "rows ?out ! i ! 0 = ?f s
      \<and> (\<forall>j. 0 < j \<and> j < ncols ?out \<longrightarrow> rows ?out ! i ! j = ?f (rows input_ids ! i ! (j - 1)))"
    if i: "i < nrows ?out" for i
  proof -
    from i have i': "i < length (rows input_ids)" by (simp add: nrows_def)
    then have l: "length (rows input_ids ! i) = ncols input_ids"
      using len by simp
    have "rows ?out ! i ! j = ?f (rows input_ids ! i ! (j - 1))" if "0 < j" "j < ncols ?out" for j
    proof -
      from that obtain j' where j': "j = Suc j'" by (cases j) auto
      with that l have "j' < length (butlast (rows input_ids ! i))" by simp
      then show ?thesis using i' j' by (simp add: nth_butlast)
    qed
    then show ?thesis using i' by simp
  qed
  show "\<exists>out. shift_tokens_right input_ids (Some pad) s = Inr out
                \<and> ncols out = ncols input_ids \<and> nrows out = nrows input_ids \<and> long_tensor out
                \<and> (\<forall>i < nrows out.
                       rows out ! i ! 0 = (if s = - 100 then pad else s)
                     \<and> (\<forall>j. 0 < j \<and> j < ncols out \<longrightarrow>
                          rows out ! i ! j =
                            (if rows input_ids ! i ! (j - 1) = - 100 then pad
                             else rows input_ids ! i ! (j - 1))))"
    using eq wfo cols by (intro exI [of _ ?out]) (simp add: nrows_def)
qed

text \<open>
  The theorem at a matrix of two rows and three columns, with tokens inside and outside
  the 64-bit range, and at a matrix of two rows and no column.
\<close>

theorem shift_tokens_right_witness:
  "long_tensor (Mat 3 [[5, - 100, 7], [8, 9, - 100]])
   \<and> int64 2 \<and> int64 1 \<and> \<not> int64 (2 ^ 63)
   \<and> shift_tokens_right (Mat 3 [[5, - 100, 7], [8, 9, - 100]]) None 2 =
       Inl (ValueError ''self.model.config.pad_token_id has to be defined.'')
   \<and> shift_tokens_right (Mat 3 [[5, - 100, 7], [8, 9, - 100]]) (Some 1) 2 =
       Inr (Mat 3 [[2, 5, 1], [2, 8, 9]])
   \<and> shift_tokens_right (Mat 3 [[5, - 100, 7], [8, 9, - 100]]) (Some (2 ^ 63)) 2 =
       Inl (RuntimeError ''value cannot be converted to type int64_t without overflow'')
   \<and> shift_tokens_right (Mat 3 [[5, - 100, 7], [8, 9, - 100]]) (Some 1) (2 ^ 63) =
       Inl (RuntimeError ''Overflow when unpacking long'')
   \<and> shift_tokens_right (Mat 0 [[], []]) (Some 1) 2 =
       Inl (IndexError ''index 0 is out of bounds for dimension 1 with size 0'')"
proof -
  have lt: "long_tensor (Mat 3 [[5, - 100, 7], [8, 9, - 100]])"
    by (simp add: long_tensor_def wf_mat_def int64_def)
  have lt0: "long_tensor (Mat 0 [[], []])"
    by (simp add: long_tensor_def wf_mat_def)
  have r: "int64 2" "int64 1" "\<not> int64 (2 ^ 63)"
    by (simp_all add: int64_def)
  have run: "shift_tokens_right (Mat 3 [[5, - 100, 7], [8, 9, - 100]]) (Some 1) 2 =
       Inr (Mat 3 [[2, 5, 1], [2, 8, 9]])"
    by (simp add: shift_tokens_right_def assign_col0_def assign_from_col1_def
        new_zeros_def masked_fill_eq_def int64_def)
  have pad: "shift_tokens_right (Mat 3 [[5, - 100, 7], [8, 9, - 100]]) (Some (2 ^ 63)) 2 =
       Inl (RuntimeError ''value cannot be converted to type int64_t without overflow'')"
    by (simp add: shift_tokens_right_def assign_col0_def assign_from_col1_def
        new_zeros_def masked_fill_eq_def int64_def)
  from shift_tokens_right_shape_and_columns [OF lt, of 2 None 1]
    shift_tokens_right_shape_and_columns [OF lt, of "2 ^ 63" "Some 1" 1]
    shift_tokens_right_shape_and_columns [OF lt0, of 2 "Some 1" 1] lt r run pad
  show ?thesis
    by simp
qed

text \<open>
  Claim C10 as stated fails at three inputs: with \<open>decoder_start_token_id = -100\<close> column 0
  holds the pad token; on a matrix without columns a missing pad token is not reported
  by a ValueError; and a start token beyond the 64-bit range gives no matrix at all.
\<close>

theorem shift_tokens_right_counterexample:
  "shift_tokens_right (Mat 1 [[5]]) (Some 1) (- 100) = Inr (Mat 1 [[1]])
   \<and> shift_tokens_right (Mat 0 [[], []]) None 2 =
       Inl (IndexError ''index 0 is out of bounds for dimension 1 with size 0'')
   \<and> shift_tokens_right (Mat 3 [[1, 2, 3]]) (Some 0) (2 ^ 63) =
       Inl (RuntimeError ''Overflow when unpacking long'')"
  by (simp add: shift_tokens_right_def assign_col0_def assign_from_col1_def
        new_zeros_def masked_fill_eq_def int64_def)

section \<open>\_reorder\_cache: only the self-attention states are gathered\<close>

lemma select_states_closed:
  assumes "\<forall>st \<in> set states. \<forall>i \<in> set beam_idx. 0 \<le> i \<and> i < int (length st)"
  shows "select_states states beam_idx = Inr (map (\<lambda>st. map (\<lambda>i. st ! nat i) beam_idx) states)"
  unfolding select_states_def
  by (rule mapE_closed) (use assms in \<open>auto simp: index_select0_def list_all_iff\<close>)

lemma reorder_layers_closed:
  assumes "\<forall>layer \<in> set past. \<forall>st \<in> set (take 2 layer). \<forall>i \<in> set beam_idx. 0 \<le> i \<and> i < int (length st)"
  shows "reorder_layers acc past beam_idx =
     Inr (acc @ map (\<lambda>layer. map (\<lambda>st. map (\<lambda>i. st ! nat i) beam_idx) (take 2 layer) @ drop 2 layer) past)"
  using assms
proof (induction past arbitrary: acc)
  case Nil
  then show ?case by simp
next
  case (Cons layer past)
  then have "select_states (take 2 layer) beam_idx = Inr (map (\<lambda>st. map (\<lambda>i. st ! nat i) beam_idx) (take 2 layer))"
    by (intro select_states_closed) simp
  with Cons show ?case by simp
qed

text \<open>
  Claim C3. For every cache and every parent-index vector whose entries are within the
  beam axis of the first two states of every layer, \<open>_reorder_cache\<close> returns a cache with
  the same layers in which slot \<open>i\<close> of each of the first two states of a layer is the old
  slot \<open>beam_idx[i]\<close>, and the remaining states of the layer (the cross-attention ones) are
  the old ones.
\<close>

theorem reorder_cache_gathers_self_attention_only:
  assumes rng: "\<forall>layer \<in> set past. \<forall>st \<in> set (take 2 layer). \<forall>i \<in> set beam_idx. 0 \<le> i \<and> i < int (length st)"
  shows "\<exists>new. reorder_cache past beam_idx = Inr new \<and> length new = length past
     \<and> (\<forall>l < length past.
           length (new ! l) = length (past ! l)
         \<and> drop 2 (new ! l) = drop 2 (past ! l)
         \<and> (\<forall>k < min 2 (length (past ! l)).
              length (new ! l ! k) = length beam_idx
            \<and> (\<forall>i < length beam_idx. new ! l ! k ! i = past ! l ! k ! nat (beam_idx ! i))))"
proof -
  let ?g = "\<lambda>layer. map (\<lambda>st. map (\<lambda>i. st ! nat i) beam_idx) (take 2 layer) @ drop 2 layer"
  have eq: "reorder_cache past beam_idx = Inr (map ?g past)"
    using reorder_layers_closed [OF rng, of "[]"] by (simp add: reorder_cache_def)
  have "length (?g layer) = length layer" for layer :: "'a list list"
    by simp
  moreover have "drop 2 (?g layer) = drop 2 layer" for layer :: "'a list list"
    by (simp add: min_def numeral_2_eq_2)
  moreover have "length (?g layer ! k) = length beam_idx
     \<and> (\<forall>i < length beam_idx. ?g layer ! k ! i = layer ! k ! nat (beam_idx ! i))"
    if "k < min 2 (length layer)" for layer :: "'a list list" and k
    using that by (simp add: nth_append)
  ultimately show ?thesis
    unfolding eq by (intro exI [of _ "map ?g past"]) simp
qed

text \<open>The parent indices \<open>[2, 0, 0, 1]\<close> of the specification, on one layer of four states.\<close>

theorem reorder_cache_witness:
  "reorder_cache [[[10, 11, 12, 13 :: nat], [20, 21, 22, 23], [30], [40]]] [2, 0, 0, 1] =
     Inr [[[12, 10, 10, 11], [22, 20, 20, 21], [30], [40]]]"
proof -
  have "\<forall>layer \<in> set [[[10, 11, 12, 13 :: nat], [20, 21, 22, 23], [30], [40]]].
          \<forall>st \<in> set (take 2 layer). \<forall>i \<in> set [2, 0, 0, 1 :: int]. 0 \<le> i \<and> i < int (length st)"
    by simp
  from reorder_cache_gathers_self_attention_only [OF this] show ?thesis
    by (simp add: reorder_cache_def select_states_def index_select0_def)
qed


section \<open>\_get\_logits\_processor: the order of the chain\<close>

lemma append_processor_Inr:
  "append_processor check ps p = Inr ps' \<Longrightarrow> ps' = ps @ [p]"
  by (auto simp: append_processor_def split: option.splits)

lemma ranked_below_stage:
  assumes "ranked_below R r ps" and "stage_of R r ps ps'"
  shows "ranked_below R (Suc r) ps'"
  using assms
  by (auto simp: ranked_below_def stage_of_def in_registration_order_def sorted_wrt_append less_Suc_eq)

lemma stage_step:
  assumes "ranked_below R r ps"
    and "returns (stage_of R r ps) m"
    and "\<And>ps'. ranked_below R (Suc r) ps' \<Longrightarrow> returns Q (f ps')"
  shows "returns Q (bindE m f)"
proof (rule returns_bindE [OF assms(2)])
  fix ps' assume "stage_of R r ps ps'"
  with assms(1) have "ranked_below R (Suc r) ps'" by (rule ranked_below_stage)
  then show "returns Q (f ps')" by (rule assms(3))
qed

lemma stage_same: "returns (stage_of R r ps) (Inr ps)"
  by (simp add: returns_def stage_of_def)

lemma stage_append:
  "registration_rank (type_of_processor p) = r \<Longrightarrow> (p = InfNanRemoveLogitsProcessor \<longrightarrow> R)
     \<Longrightarrow> returns (stage_of R r ps) (append_processor check ps p)"
  by (auto simp: returns_def stage_of_def dest!: append_processor_Inr)

lemmas stage_rules = stage_same stage_append returns_Inl

lemma merge_then_normalize:
  assumes "ranked_below R 14 ps"
  shows "returns (\<lambda>res. \<exists>defaults custom.
            res = defaults @ custom @ (if renorm = Some True then [LogitNormalization] else [])
          \<and> custom_list = Some custom
          \<and> in_registration_order defaults
          \<and> (\<forall>p \<in> set defaults. registration_rank (type_of_processor p) < 14)
          \<and> (InfNanRemoveLogitsProcessor \<in> set defaults \<longrightarrow> R))
     (bindE (merge_criteria_processor_list type_of_processor ps custom_list) (\<lambda>processors.
        if renorm = Some True then append_processor check processors LogitNormalization
        else Inr processors))"
  using assms
  by (auto simp: returns_def merge_criteria_processor_list_def ranked_below_def
      split: option.splits if_splits sum.splits dest!: append_processor_Inr)

lemma get_logits_processor_returns:
  "returns (\<lambda>ps. \<exists>defaults custom.
            ps = defaults @ custom @ (if lp_renormalize_logits a = Some True then [LogitNormalization] else [])
          \<and> lp_logits_processor a = Some custom
          \<and> in_registration_order defaults
          \<and> (\<forall>p \<in> set defaults. registration_rank (type_of_processor p) < 14)
          \<and> (InfNanRemoveLogitsProcessor \<in> set defaults \<longrightarrow>
                or_default (lp_remove_invalid_values a) (cfg_remove_invalid_values cfg) = Some True))
     (get_logits_processor check cfg a)"
  unfolding get_logits_processor_def Let_def
  apply (rule stage_step [where r = 0 and ps = "[]"
      and R = "or_default (lp_remove_invalid_values a) (cfg_remove_invalid_values cfg) = Some True"])
    apply (simp add: ranked_below_def in_registration_order_def)
   apply (simp add: stage_rules split: option.split)
  apply (erule stage_step)
   apply (simp add: stage_rules split: option.split)
  apply (erule stage_step)
   apply (simp add: stage_rules split: option.split)
  apply (erule stage_step)
   apply (simp add: stage_rules split: option.split)
  apply (erule stage_step)
   apply (simp add: stage_rules split: option.split)
  apply (erule stage_step)
   apply (simp add: stage_rules split: option.split)
  apply (erule stage_step)
   apply (simp add: stage_rules floordiv_def split: option.split)
  apply (erule stage_step)
   apply (simp add: stage_rules split: option.split)
  apply (erule stage_step)
   apply (simp add: stage_rules split: option.split)
  apply (erule stage_step)
   apply (simp add: stage_rules split: option.split)
  apply (erule stage_step)
   apply (simp add: stage_rules split: option.split)
  apply (erule stage_step)
   apply (simp add: stage_rules split: option.split)
  apply (erule stage_step)
   apply (simp add: stage_rules Let_def split: option.split)
  apply (erule stage_step)
   apply (simp add: stage_rules split: option.split)
  apply (rule merge_then_normalize)
  apply (simp add: numeral_eq_Suc)
  done


text \<open>
  Claim C5. Whenever \<open>_get_logits_processor\<close> returns a chain, the chain is the rules it
  activated, then the caller's rules, then the renormalization if it is enabled (so it is
  last). The activated rules stand in the registration order, each class at most once:
  repetition penalty before no-repeat-n-gram, before encoder-no-repeat-n-gram, before
  bad-words, before min-length, before prefix-constrained, before forced-BOS, before
  forced-EOS, before remove-invalid-values, before exponential-decay-length-penalty,
  before suppress-tokens, before begin-suppress-tokens, before forced-token-ids.
\<close>

theorem get_logits_processor_registration_order:
  assumes "get_logits_processor check cfg a = Inr ps"
  shows "\<exists>defaults custom.
            ps = defaults @ custom @ (if lp_renormalize_logits a = Some True then [LogitNormalization] else [])
          \<and> lp_logits_processor a = Some custom
          \<and> in_registration_order defaults
          \<and> (\<forall>p \<in> set defaults. registration_rank (type_of_processor p) < 14)"
proof -
  from get_logits_processor_returns [where a = a and check = check and cfg = cfg] assms
  obtain defaults custom where
    "ps = defaults @ custom @ (if lp_renormalize_logits a = Some True then [LogitNormalization] else [])"
    "lp_logits_processor a = Some custom"
    "in_registration_order defaults"
    "\<forall>p \<in> set defaults. registration_rank (type_of_processor p) < 14"
    unfolding returns_def by blast
  then show ?thesis by blast
qed

lemma example_chain:
  "get_logits_processor (\<lambda>p. None) example_config example_lp_args =
     Inr [RepetitionPenaltyLogitsProcessor (Fin (6 / 5)), NoRepeatNGramLogitsProcessor 3,
          MinLengthLogitsProcessor 5 2, ForcedEOSTokenLogitsProcessor (Some 20) 2,
          CustomProcessor 7, LogitNormalization]"
  by (simp add: get_logits_processor_def example_config_def example_lp_args_def
      append_processor_def merge_criteria_processor_list_def float_ne_def)

text \<open>
  A chain with four activated rules, one rule of the caller and the renormalization.
\<close>

theorem get_logits_processor_witness:
  "get_logits_processor (\<lambda>p. None) example_config example_lp_args =
     Inr [RepetitionPenaltyLogitsProcessor (Fin (6 / 5)), NoRepeatNGramLogitsProcessor 3,
          MinLengthLogitsProcessor 5 2, ForcedEOSTokenLogitsProcessor (Some 20) 2,
          CustomProcessor 7, LogitNormalization]
   \<and> in_registration_order
        [RepetitionPenaltyLogitsProcessor (Fin (6 / 5)), NoRepeatNGramLogitsProcessor 3,
         MinLengthLogitsProcessor 5 2, ForcedEOSTokenLogitsProcessor (Some 20) 2]"
proof -
  from get_logits_processor_registration_order [OF example_chain]
  obtain defaults custom where
    "[RepetitionPenaltyLogitsProcessor (Fin (6 / 5)), NoRepeatNGramLogitsProcessor 3,
      MinLengthLogitsProcessor 5 2, ForcedEOSTokenLogitsProcessor (Some 20) 2,
      CustomProcessor 7, LogitNormalization] =
       defaults @ custom @ (if lp_renormalize_logits example_lp_args = Some True then [LogitNormalization] else [])"
    and "lp_logits_processor example_lp_args = Some custom"
    and ord: "in_registration_order defaults"
    by blast
  then have "[RepetitionPenaltyLogitsProcessor (Fin (6 / 5)), NoRepeatNGramLogitsProcessor 3,
      MinLengthLogitsProcessor 5 2, ForcedEOSTokenLogitsProcessor (Some 20) 2]
      @ [CustomProcessor 7, LogitNormalization] = defaults @ [CustomProcessor 7, LogitNormalization]"
    by (auto simp: example_lp_args_def)
  then have "defaults = [RepetitionPenaltyLogitsProcessor (Fin (6 / 5)), NoRepeatNGramLogitsProcessor 3,
      MinLengthLogitsProcessor 5 2, ForcedEOSTokenLogitsProcessor (Some 20) 2]"
    by (subst (asm) append_eq_append_conv) auto
  with ord example_chain show ?thesis by simp
qed

section \<open>beam\_search: the state at loop entry\<close>

lemma init_beam_scores_length: "length (init_beam_scores b nb) = b * nb"
proof -
  have "\<forall>r \<in> set (map (\<lambda>r. take 1 r @ replicate (length r - 1) (Fin (- 1000000000)))
          (replicate b (replicate nb (Fin 0)))). length r = nb"
    by (cases nb) auto
  from length_concat_equal_rows [OF this] show ?thesis
    by (simp add: init_beam_scores_def)
qed

lemma init_beam_scores_nth:
  assumes "e < b" and "k < nb"
  shows "init_beam_scores b nb ! (e * nb + k) = (if k = 0 then Fin 0 else Fin (- 1000000000))"
proof -
  let ?rs = "map (\<lambda>r. take 1 r @ replicate (length r - 1) (Fin (- 1000000000)))
          (replicate b (replicate nb (Fin 0)))"
  have len: "\<forall>r \<in> set ?rs. length r = nb"
    by (cases nb) auto
  from assms have "concat ?rs ! (e * nb + k) = ?rs ! e ! k"
    by (intro concat_equal_rows_nth [OF len]) auto
  also from assms have "\<dots> = (if k = 0 then Fin 0 else Fin (- 1000000000))"
    by (cases k) (auto simp: nth_append)
  finally show ?thesis by (simp add: init_beam_scores_def)
qed

lemma topk_ge_trans: "topk_ge a b \<Longrightarrow> topk_ge b c \<Longrightarrow> topk_ge a c"
  by (cases a; cases b; cases c) auto

lemma fadd_zero: "fadd x (Fin 0) = x"
  by (cases x) auto

lemma other_beam_sum:
  "topk_ge (Fin 0) x \<Longrightarrow> topk_ge (Fin (- 1000000000)) (fadd x (Fin (- 1000000000)))"
  by (cases x) auto

text \<open>
  Where a row of an example has at least \<open>2 * num_beams\<close> entries of its first beam above
  \<open>-1e9\<close> and no entry of another beam above it, every position that top-k selects lies
  in the first beam.
\<close>

lemma first_beam_positions:
  assumes wf: "wf_mat m" and n: "nrows m = b * nb" and e: "e < b"
    and sel: "topk_selection (flat_row m nb e) (2 * nb) (selector (flat_row m nb e) (2 * nb))"
    and live: "2 * nb \<le> card {t. t < ncols m \<and> above_floor (rows m ! (e * nb) ! t)}"
    and low: "\<forall>k < nb. 0 < k \<longrightarrow> (\<forall>t < ncols m. \<not> above_floor (rows m ! (e * nb + k) ! t))"
  shows "\<forall>j \<in> set (snd (selector (flat_row m nb e) (2 * nb))). j div ncols m = 0"
proof
  let ?v = "ncols m"
  let ?flat = "flat_row m nb e"
  let ?js = "snd (selector ?flat (2 * nb))"
  let ?L = "{t. t < ?v \<and> above_floor (rows m ! (e * nb) ! t)}"
  note c = topk_selectionD [where selector = selector and xs = ?flat and k = "2 * nb", OF sel]
  have fl: "length ?flat = nb * ?v"
    by (rule flat_row_length [OF wf n e])
  fix j assume j: "j \<in> set ?js"
  show "j div ?v = 0"
  proof (rule ccontr)
    assume nz: "j div ?v \<noteq> 0"
    from j c(4) fl have jlt: "j < nb * ?v" by simp
    note pj = flat_row_nth [OF wf n e jlt]
    from pj nz low have lowj: "\<not> above_floor (?flat ! j)"
      by simp
    have "j \<notin> ?L"
    proof
      assume "j \<in> ?L"
      then have "j div ?v = 0" by simp
      with nz show False by simp
    qed
    have "\<not> ?L \<subseteq> set ?js"
    proof
      assume sub: "?L \<subseteq> set ?js"
      with \<open>j \<notin> ?L\<close> j have "?L \<subseteq> set ?js - {j}" by blast
      then have "card ?L \<le> card (set ?js - {j})"
        by (intro card_mono) simp_all
      also have "\<dots> < card (set ?js)"
        using j by (intro card_Diff1_less) simp_all
      also have "\<dots> = 2 * nb"
        using c(2) c(3) by (simp add: distinct_card)
      finally show False using live by simp
    qed
    then obtain t where t: "t < ?v" "above_floor (rows m ! (e * nb) ! t)" "t \<notin> set ?js"
      by blast
    from jlt have nbpos: "0 < nb" by (cases nb) auto
    have tlt: "t < nb * ?v"
    proof -
      have "t < 1 * ?v" using t(1) by simp
      also have "\<dots> \<le> nb * ?v" using nbpos by (intro mult_le_mono1) simp
      finally show ?thesis .
    qed
    from flat_row_nth [OF wf n e tlt] t(1) have ft: "?flat ! t = rows m ! (e * nb) ! t"
      by simp
    from c(7) tlt fl t(3) j have "topk_ge (?flat ! j) (?flat ! t)"
      by simp
    moreover from lowj have "topk_ge (Fin (- 1000000000)) (?flat ! j)"
      by (simp add: above_floor_def)
    ultimately have "topk_ge (Fin (- 1000000000)) (?flat ! t)"
      by (blast intro: topk_ge_trans)
    with t(2) ft show False by (simp add: above_floor_def)
  qed
qed

lemma expansion_step_next_indices:
  assumes proc: "logits_processor_call (c_apply_processor C) (env_logits_processor env) (st_input_ids st) sc
        = Inr processed"
    and add: "add_beam_scores processed (st_beam_scores st) sc = Inr m"
    and cand: "select_candidates (c_topk_kernel C) (env_batch_size env) (env_num_beams env) m
        = Inr (vals, toks, idxs)"
    and step: "expansion_step C env st sc = Inr st'"
  shows "st_next_indices st' = Some idxs"
  using step unfolding expansion_step_def proc add cand bindE_Inr Let_def
  by (auto split: if_splits prod.splits elim!: bindE_InrE)


lemma live_init:
  "beam_search_init (cpu_collab live_scores) example_config example_bs_args (Mat 1 [[2], [2]]) 0
     = Inr (entry_env, example_state)"
  by code_simp



section \<open>beam\_search: the candidates of a step\<close>

text \<open>
  Claim C1, as the code has it. Take a step whose scores have one row per beam of every
  example. If the vocabulary is too small for \<open>2 * num_beams\<close> candidates
  (\<open>num_beams * vocab < 2 * num_beams\<close>), top-k raises and nothing is selected. Otherwise,
  on rows where the library's top-k keeps its promise, \<open>beam_search\<close> flattens the beam
  rows of each example into one vector of size \<open>num_beams * vocab\<close> (position \<open>j\<close> holds
  the score of token \<open>j mod vocab\<close> of beam \<open>j div vocab\<close>) and returns \<open>2 * num_beams\<close>
  candidates per example. Candidate \<open>c\<close> is the selected position \<open>j\<close> split into the
  parent beam \<open>j div vocab\<close> and the token \<open>j mod vocab\<close>, with the score that the matrix
  holds for this beam and token. The candidates are in descending order of score, no two
  of them are the same beam and token, and no beam and token left out ranks above a
  candidate. Nothing is said of the order among equal scores: it is the library's.
\<close>

theorem select_candidates_topk:
  assumes wf: "wf_mat scores" and n: "nrows scores = batch_size * num_beams"
  shows "(num_beams * ncols scores < 2 * num_beams \<longrightarrow>
            select_candidates selector batch_size num_beams scores =
              Inl (RuntimeError ''selected index k out of range''))
       \<and> (2 * num_beams \<le> num_beams * ncols scores
          \<and> (\<forall>e < batch_size.
                topk_selection (flat_row scores num_beams e) (2 * num_beams)
                  (selector (flat_row scores num_beams e) (2 * num_beams)))
          \<longrightarrow> (\<exists>vals toks idxs.
                select_candidates selector batch_size num_beams scores = Inr (vals, toks, idxs)
              \<and> nrows vals = batch_size \<and> nrows toks = batch_size \<and> nrows idxs = batch_size
              \<and> (\<forall>e < batch_size.
                    length (flat_row scores num_beams e) = num_beams * ncols scores
                  \<and> (\<forall>j < num_beams * ncols scores.
                        flat_row scores num_beams e ! j =
                          rows scores ! (e * num_beams + j div ncols scores) ! (j mod ncols scores))
                  \<and> length (rows vals ! e) = 2 * num_beams
                  \<and> length (rows toks ! e) = 2 * num_beams
                  \<and> length (rows idxs ! e) = 2 * num_beams
                  \<and> (\<forall>c < 2 * num_beams.
                        \<exists>j < num_beams * ncols scores.
                          j = snd (selector (flat_row scores num_beams e) (2 * num_beams)) ! c
                        \<and> rows idxs ! e ! c = int (j div ncols scores)
                        \<and> rows toks ! e ! c = int (j mod ncols scores)
                        \<and> j div ncols scores < num_beams \<and> j mod ncols scores < ncols scores
                        \<and> rows vals ! e ! c =
                            rows scores ! (e * num_beams + j div ncols scores) ! (j mod ncols scores))
                  \<and> (\<forall>c < 2 * num_beams. \<forall>c' < 2 * num_beams. c < c' \<longrightarrow>
                        topk_ge (rows vals ! e ! c) (rows vals ! e ! c')
                      \<and> (rows idxs ! e ! c, rows toks ! e ! c) \<noteq> (rows idxs ! e ! c', rows toks ! e ! c'))
                  \<and> (\<forall>b < num_beams. \<forall>t < ncols scores.
                        (\<forall>c < 2 * num_beams. (rows idxs ! e ! c, rows toks ! e ! c) \<noteq> (int b, int t))
                        \<longrightarrow> (\<forall>c < 2 * num_beams.
                               topk_ge (rows vals ! e ! c) (rows scores ! (e * num_beams + b) ! t))))))"
proof (intro conjI impI)
  assume "num_beams * ncols scores < 2 * num_beams"
  then show "select_candidates selector batch_size num_beams scores =
      Inl (RuntimeError ''selected index k out of range'')"
    by (rule select_candidates_raises [OF wf n])
next
  assume h: "2 * num_beams \<le> num_beams * ncols scores
          \<and> (\<forall>e < batch_size.
                topk_selection (flat_row scores num_beams e) (2 * num_beams)
                  (selector (flat_row scores num_beams e) (2 * num_beams)))"
  then have k: "2 * num_beams \<le> num_beams * ncols scores"
    and sel: "\<forall>e < batch_size.
                topk_selection (flat_row scores num_beams e) (2 * num_beams)
                  (selector (flat_row scores num_beams e) (2 * num_beams))"
    by simp_all
  let ?v = "ncols scores"
  let ?k = "2 * num_beams"
  let ?flat = "flat_row scores num_beams"
  let ?js = "\<lambda>e. snd (selector (?flat e) ?k)"
  let ?vals = "Mat ?k (map (\<lambda>e. fst (selector (?flat e) ?k)) [0..<batch_size])"
  let ?toks = "Mat ?k (map (\<lambda>e. map (\<lambda>j. int (j mod ?v)) (?js e)) [0..<batch_size])"
  let ?idxs = "Mat ?k (map (\<lambda>e. map (\<lambda>j. int (j div ?v)) (?js e)) [0..<batch_size])"
  have run: "select_candidates selector batch_size num_beams scores = Inr (?vals, ?toks, ?idxs)"
    using select_candidates_run [where selector = selector and scores = scores
        and batch_size = batch_size and num_beams = num_beams] wf n k sel
    by blast
  have each: "length (?flat e) = num_beams * ?v
      \<and> (\<forall>j < num_beams * ?v. ?flat e ! j = rows scores ! (e * num_beams + j div ?v) ! (j mod ?v))
      \<and> length (rows ?vals ! e) = ?k \<and> length (rows ?toks ! e) = ?k \<and> length (rows ?idxs ! e) = ?k
      \<and> (\<forall>c < ?k. \<exists>j < num_beams * ?v. j = ?js e ! c
            \<and> rows ?idxs ! e ! c = int (j div ?v) \<and> rows ?toks ! e ! c = int (j mod ?v)
            \<and> j div ?v < num_beams \<and> j mod ?v < ?v
            \<and> rows ?vals ! e ! c = rows scores ! (e * num_beams + j div ?v) ! (j mod ?v))
      \<and> (\<forall>c < ?k. \<forall>c' < ?k. c < c' \<longrightarrow>
            topk_ge (rows ?vals ! e ! c) (rows ?vals ! e ! c')
          \<and> (rows ?idxs ! e ! c, rows ?toks ! e ! c) \<noteq> (rows ?idxs ! e ! c', rows ?toks ! e ! c'))
      \<and> (\<forall>b < num_beams. \<forall>t < ?v.
            (\<forall>c < ?k. (rows ?idxs ! e ! c, rows ?toks ! e ! c) \<noteq> (int b, int t))
            \<longrightarrow> (\<forall>c < ?k. topk_ge (rows ?vals ! e ! c) (rows scores ! (e * num_beams + b) ! t)))"
    if e: "e < batch_size" for e
  proof -
    from sel e have se: "topk_selection (?flat e) ?k (selector (?flat e) ?k)"
      by simp
    note c = topk_selectionD [where selector = selector and xs = "?flat e" and k = ?k, OF se]
    have fl: "length (?flat e) = num_beams * ?v"
      by (rule flat_row_length [OF wf n e])
    have pos: "j div ?v < num_beams \<and> j mod ?v < ?v
        \<and> ?flat e ! j = rows scores ! (e * num_beams + j div ?v) ! (j mod ?v)"
      if "j < num_beams * ?v" for j
      by (rule flat_row_nth [OF wf n e that])
    have jlt: "?js e ! c < num_beams * ?v" if "c < ?k" for c
      using c(2) c(4) fl that by (metis nth_mem)
    have lens: "length (rows ?vals ! e) = ?k" "length (rows ?toks ! e) = ?k"
        "length (rows ?idxs ! e) = ?k"
      using e c(1) c(2) by simp_all
    have val: "rows ?vals ! e ! c = ?flat e ! (?js e ! c)" if "c < ?k" for c
      using that e c(2) c(5) by simp
    have tok: "rows ?toks ! e ! c = int (?js e ! c mod ?v)" if "c < ?k" for c
      using that e c(2) by simp
    have idx: "rows ?idxs ! e ! c = int (?js e ! c div ?v)" if "c < ?k" for c
      using that e c(2) by simp
    have cand: "\<exists>j < num_beams * ?v. j = ?js e ! c
            \<and> rows ?idxs ! e ! c = int (j div ?v) \<and> rows ?toks ! e ! c = int (j mod ?v)
            \<and> j div ?v < num_beams \<and> j mod ?v < ?v
            \<and> rows ?vals ! e ! c = rows scores ! (e * num_beams + j div ?v) ! (j mod ?v)"
      if "c < ?k" for c
      using jlt [OF that] pos [OF jlt [OF that]] val [OF that] tok [OF that] idx [OF that]
      by simp
    have ord: "topk_ge (rows ?vals ! e ! c) (rows ?vals ! e ! c')
          \<and> (rows ?idxs ! e ! c, rows ?toks ! e ! c) \<noteq> (rows ?idxs ! e ! c', rows ?toks ! e ! c')"
      if "c < ?k" "c' < ?k" "c < c'" for c c'
    proof
      from that c(2) have "c' < length (map (\<lambda>j. ?flat e ! j) (?js e))"
        by simp
      from sorted_wrt_nth_less [OF c(6) that(3) this]
      have "topk_ge (map (\<lambda>j. ?flat e ! j) (?js e) ! c) (map (\<lambda>j. ?flat e ! j) (?js e) ! c')" .
      then have "topk_ge (?flat e ! (?js e ! c)) (?flat e ! (?js e ! c'))"
        using that c(2) by simp
      then show "topk_ge (rows ?vals ! e ! c) (rows ?vals ! e ! c')"
        using val [OF that(1)] val [OF that(2)] by simp
    next
      from c(3) that c(2) have ne: "?js e ! c \<noteq> ?js e ! c'"
        by (simp add: nth_eq_iff_index_eq)
      have "?js e ! c = ?js e ! c div ?v * ?v + ?js e ! c mod ?v"
        and "?js e ! c' = ?js e ! c' div ?v * ?v + ?js e ! c' mod ?v"
        by simp_all
      with ne have "\<not> (?js e ! c div ?v = ?js e ! c' div ?v \<and> ?js e ! c mod ?v = ?js e ! c' mod ?v)"
        by metis
      then show "(rows ?idxs ! e ! c, rows ?toks ! e ! c) \<noteq> (rows ?idxs ! e ! c', rows ?toks ! e ! c')"
        using tok [OF that(1)] tok [OF that(2)] idx [OF that(1)] idx [OF that(2)] by simp
    qed
    have out: "\<forall>c < ?k. topk_ge (rows ?vals ! e ! c) (rows scores ! (e * num_beams + b) ! t)"
      if b: "b < num_beams" and t: "t < ?v"
        and no: "\<forall>c < ?k. (rows ?idxs ! e ! c, rows ?toks ! e ! c) \<noteq> (int b, int t)" for b t
    proof (intro allI impI)
      fix c assume ck: "c < ?k"
      let ?i = "b * ?v + t"
      have i: "?i < num_beams * ?v"
      proof -
        have "?i < Suc b * ?v" using t by simp
        also have "\<dots> \<le> num_beams * ?v" using b by (intro mult_le_mono1) simp
        finally show ?thesis .
      qed
      have dm: "?i div ?v = b" "?i mod ?v = t"
        using t by simp_all
      have "?i \<notin> set (?js e)"
      proof
        assume "?i \<in> set (?js e)"
        then obtain c' where c': "c' < ?k" "?js e ! c' = ?i"
          using c(2) by (auto simp: in_set_conv_nth)
        with no tok [OF c'(1)] idx [OF c'(1)] dm show False by simp
      qed
      with c(7) i fl have "\<forall>j \<in> set (?js e). topk_ge (?flat e ! j) (?flat e ! ?i)"
        by simp
      moreover have "?js e ! c \<in> set (?js e)"
        using ck c(2) by simp
      ultimately have "topk_ge (?flat e ! (?js e ! c)) (?flat e ! ?i)"
        by blast
      then show "topk_ge (rows ?vals ! e ! c) (rows scores ! (e * num_beams + b) ! t)"
        using pos [OF i] dm val [OF ck] by simp
    qed
    from pos have flat: "\<forall>j < num_beams * ?v.
        ?flat e ! j = rows scores ! (e * num_beams + j div ?v) ! (j mod ?v)"
      by blast
    from cand have cands: "\<forall>c < ?k. \<exists>j < num_beams * ?v. j = ?js e ! c
            \<and> rows ?idxs ! e ! c = int (j div ?v) \<and> rows ?toks ! e ! c = int (j mod ?v)
            \<and> j div ?v < num_beams \<and> j mod ?v < ?v
            \<and> rows ?vals ! e ! c = rows scores ! (e * num_beams + j div ?v) ! (j mod ?v)"
      by blast
    from ord have ords: "\<forall>c < ?k. \<forall>c' < ?k. c < c' \<longrightarrow>
            topk_ge (rows ?vals ! e ! c) (rows ?vals ! e ! c')
          \<and> (rows ?idxs ! e ! c, rows ?toks ! e ! c) \<noteq> (rows ?idxs ! e ! c', rows ?toks ! e ! c')"
      by blast
    from out have outs: "\<forall>b < num_beams. \<forall>t < ?v.
            (\<forall>c < ?k. (rows ?idxs ! e ! c, rows ?toks ! e ! c) \<noteq> (int b, int t))
            \<longrightarrow> (\<forall>c < ?k. topk_ge (rows ?vals ! e ! c) (rows scores ! (e * num_beams + b) ! t))"
      by blast
    show ?thesis
      by (intro conjI fl flat lens cands ords outs)
  qed
  show "\<exists>vals toks idxs.
                select_candidates selector batch_size num_beams scores = Inr (vals, toks, idxs)
              \<and> nrows vals = batch_size \<and> nrows toks = batch_size \<and> nrows idxs = batch_size
              \<and> (\<forall>e < batch_size.
                    length (flat_row scores num_beams e) = num_beams * ncols scores
                  \<and> (\<forall>j < num_beams * ncols scores.
                        flat_row scores num_beams e ! j =
                          rows scores ! (e * num_beams + j div ncols scores) ! (j mod ncols scores))
                  \<and> length (rows vals ! e) = 2 * num_beams
                  \<and> length (rows toks ! e) = 2 * num_beams
                  \<and> length (rows idxs ! e) = 2 * num_beams
                  \<and> (\<forall>c < 2 * num_beams.
                        \<exists>j < num_beams * ncols scores.
                          j = snd (selector (flat_row scores num_beams e) (2 * num_beams)) ! c
                        \<and> rows idxs ! e ! c = int (j div ncols scores)
                        \<and> rows toks ! e ! c = int (j mod ncols scores)
                        \<and> j div ncols scores < num_beams \<and> j mod ncols scores < ncols scores
                        \<and> rows vals ! e ! c =
                            rows scores ! (e * num_beams + j div ncols scores) ! (j mod ncols scores))
                  \<and> (\<forall>c < 2 * num_beams. \<forall>c' < 2 * num_beams. c < c' \<longrightarrow>
                        topk_ge (rows vals ! e ! c) (rows vals ! e ! c')
                      \<and> (rows idxs ! e ! c, rows toks ! e ! c) \<noteq> (rows idxs ! e ! c', rows toks ! e ! c'))
                  \<and> (\<forall>b < num_beams. \<forall>t < ncols scores.
                        (\<forall>c < 2 * num_beams. (rows idxs ! e ! c, rows toks ! e ! c) \<noteq> (int b, int t))
                        \<longrightarrow> (\<forall>c < 2 * num_beams.
                               topk_ge (rows vals ! e ! c) (rows scores ! (e * num_beams + b) ! t))))"
    apply (rule exI [of _ ?vals], rule exI [of _ ?toks], rule exI [of _ ?idxs])
    apply (intro conjI)
        apply (rule run)
       apply (simp add: nrows_def)
      apply (simp add: nrows_def)
     apply (simp add: nrows_def)
    using each apply blast
    done
qed

text \<open>
  One example with two beams over a vocabulary of three tokens, selected by the CPU
  kernel, and one example with three beams over a vocabulary of one token.
\<close>

theorem select_candidates_witness:
  "wf_mat (Mat 3 [[Fin (- 1), Fin (- 5), Fin (- 3)], [Fin (- 2), Fin (- 6), Fin (- 4)]])
   \<and> topk_selection [Fin (- 1), Fin (- 5), Fin (- 3), Fin (- 2), Fin (- 6), Fin (- 4)] 4
        (cpu_topk [Fin (- 1), Fin (- 5), Fin (- 3), Fin (- 2), Fin (- 6), Fin (- 4)] 4)
   \<and> select_candidates cpu_topk 1 2
        (Mat 3 [[Fin (- 1), Fin (- 5), Fin (- 3)], [Fin (- 2), Fin (- 6), Fin (- 4)]])
      = Inr (Mat 4 [[Fin (- 1), Fin (- 2), Fin (- 3), Fin (- 4)]],
             Mat 4 [[0, 0, 2, 2]], Mat 4 [[0, 1, 0, 1]])
   \<and> select_candidates cpu_topk 1 3 (Mat 1 [[Fin (- 1)], [Fin (- 2)], [Fin (- 3)]])
      = Inl (RuntimeError ''selected index k out of range'')"
proof -
  let ?scores = "Mat 3 [[Fin (- 1), Fin (- 5), Fin (- 3)], [Fin (- 2), Fin (- 6), Fin (- 4)]]"
  let ?narrow = "Mat 1 [[Fin (- 1)], [Fin (- 2)], [Fin (- 3)]]"
  have wf: "wf_mat ?scores" by (simp add: wf_mat_def)
  have n: "nrows ?scores = 1 * 2" by (simp add: nrows_def)
  have flat: "flat_row ?scores 2 0 = [Fin (- 1), Fin (- 5), Fin (- 3), Fin (- 2), Fin (- 6), Fin (- 4)]"
    by (simp add: flat_row_def)
  have row: "topk_selection [Fin (- 1), Fin (- 5), Fin (- 3), Fin (- 2), Fin (- 6), Fin (- 4)] 4
        (cpu_topk [Fin (- 1), Fin (- 5), Fin (- 3), Fin (- 2), Fin (- 6), Fin (- 4)] 4)"
    by code_simp
  have sel: "2 * 2 \<le> 2 * ncols ?scores
      \<and> (\<forall>e < 1. topk_selection (flat_row ?scores 2 e) (2 * 2) (cpu_topk (flat_row ?scores 2 e) (2 * 2)))"
    using row by (simp add: flat)
  have run: "select_candidates cpu_topk 1 2 ?scores
      = Inr (Mat 4 [[Fin (- 1), Fin (- 2), Fin (- 3), Fin (- 4)]],
             Mat 4 [[0, 0, 2, 2]], Mat 4 [[0, 1, 0, 1]])"
    by code_simp
  have wf': "wf_mat ?narrow" by (simp add: wf_mat_def)
  have n': "nrows ?narrow = 1 * 3" by (simp add: nrows_def)
  from select_candidates_topk
         [where scores = ?scores and batch_size = 1 and num_beams = 2 and selector = cpu_topk,
          OF wf n]
       select_candidates_topk
         [where scores = ?narrow and batch_size = 1 and num_beams = 3 and selector = cpu_topk,
          OF wf' n']
       wf row sel run
  show ?thesis by simp
qed

text \<open>
  Claim C1 as stated fails in two ways. On a vocabulary of one token the row of an
  example has \<open>num_beams\<close> entries, fewer than the \<open>2 * num_beams\<close> asked of top-k, which
  raises before anything is selected. And equal scores are not taken by lower flattened
  position: when the three tokens of the second beam have the same score, the CPU kernel
  of top-k makes the last of them (flattened position 5, token 2) the fourth candidate,
  not the first (flattened position 3, token 0).
\<close>

theorem select_candidates_counterexample:
  "select_candidates cpu_topk 1 2 (Mat 1 [[Fin (- 1)], [Fin (- 2)]])
      = Inl (RuntimeError ''selected index k out of range'')
   \<and> select_candidates cpu_topk 1 2
        (Mat 3 [[Fin (- 1), Fin (- 2), Fin (- 3)],
                [Fin (- 1000000000), Fin (- 1000000000), Fin (- 1000000000)]])
      = Inr (Mat 4 [[Fin (- 1), Fin (- 2), Fin (- 3), Fin (- 1000000000)]],
             Mat 4 [[0, 1, 2, 2]], Mat 4 [[0, 0, 0, 1]])"
  by code_simp

section \<open>generate: lengths and stopping criteria\<close>

lemma get_stopping_criteria_max_length:
  assumes "get_stopping_criteria (Some m) max_time custom = Inr sc"
  shows "MaxLengthCriteria m \<in> set sc \<and> criteria_max_length sc = Some m \<and> sc \<noteq> []"
proof -
  let ?d = "case max_time of None \<Rightarrow> [MaxLengthCriteria m] | Some t \<Rightarrow> [MaxLengthCriteria m, MaxTimeCriteria t]"
  from assms have "sc = ?d \<or> (\<exists>c. sc = ?d @ c)"
    by (auto simp: get_stopping_criteria_def merge_criteria_processor_list_def Let_def
        split: option.splits if_splits)
  then show ?thesis by (auto split: option.splits)
qed

lemma generate_prepare_InrD:
  assumes "generate_prepare G cfg a = Inr p"
  shows "\<exists>sc m0. get_stopping_criteria (Some (p_max_length p)) (g_max_time a) (g_stopping_criteria a) = Inr sc
            \<and> bs_stopping_criteria (p_beam_search_args p) = Some sc
            \<and> bs_max_length (p_beam_search_args p) = None
            \<and> resolve_max_length (g_max_length a) (g_max_new_tokens a) 1 = Inr m0
            \<and> or_default m0 (cfg_max_length cfg) = Some (p_max_length p)
            \<and> ncols (p_gen_input_ids p) = 1"
  using assms unfolding generate_prepare_def Let_def
  apply (elim bindE_InrE)
  apply (auto split: if_splits option.splits prod.splits elim!: bindE_InrE)
  done

lemma generate_prepare_both_lengths:
  assumes "g_max_length a = Some m" and "g_max_new_tokens a = Some n"
  shows "\<exists>e. generate_prepare G cfg a = Inl e"
proof (cases "generate_prepare G cfg a")
  case (Inl e)
  then show ?thesis by simp
next
  case (Inr p)
  from generate_prepare_InrD [OF Inr] assms show ?thesis
    by (auto simp: resolve_max_length_def)
qed

lemma generate_prepare_both_lengths_error:
  assumes "g_max_length a = Some m" and "g_max_new_tokens a = Some n"
    and "gc_encode G = Inr x" and "gc_has_text_image G \<or> gc_has_entity_image G"
    and "cfg_decoder_start_token_id cfg = Some d"
  shows "generate_prepare G cfg a = Inl (ValueError ''Both `max_new_tokens` and `max_length` have been set'')"
  using assms by (auto simp: generate_prepare_def resolve_max_length_def Let_def)

text \<open>
  Claim C8. When \<open>max_length\<close> and \<open>max_new_tokens\<close> are both supplied, \<open>generate\<close> raises
  before the loop starts, whatever the loop would do: once the encoders have run and the
  decoder start token is known, the error is the ValueError of the two length arguments.
  When only \<open>max_new_tokens\<close> is supplied, the maximum length that \<open>generate\<close> works with,
  and that its max-length stopping criterion carries, is \<open>max_new_tokens\<close> plus the length
  of the initial decoder input (one start token).
\<close>

theorem generate_length_arguments:
  "(g_max_length a = Some m \<and> g_max_new_tokens a = Some n \<longrightarrow>
      (\<exists>e. generate_prepare G cfg a = Inl e \<and> (\<forall>fuel. generate G C cfg a fuel = Some (Inl e)))
    \<and> (gc_encode G = Inr x \<and> (gc_has_text_image G \<or> gc_has_entity_image G)
          \<and> cfg_decoder_start_token_id cfg = Some d \<longrightarrow>
        generate_prepare G cfg a =
          Inl (ValueError ''Both `max_new_tokens` and `max_length` have been set'')))
   \<and> (g_max_length a = None \<and> g_max_new_tokens a = Some n \<longrightarrow>
        (\<forall>p. generate_prepare G cfg a = Inr p \<longrightarrow>
           ncols (p_gen_input_ids p) = 1
         \<and> p_max_length p = n + int (ncols (p_gen_input_ids p))
         \<and> (\<exists>sc. bs_stopping_criteria (p_beam_search_args p) = Some sc
                \<and> criteria_max_length sc = Some (n + 1))))"
proof (intro conjI impI allI)
  assume both: "g_max_length a = Some m \<and> g_max_new_tokens a = Some n"
  then obtain e where e: "generate_prepare G cfg a = Inl e"
    using generate_prepare_both_lengths [of a m n G cfg] by blast
  then have "\<forall>fuel. generate G C cfg a fuel = Some (Inl e)"
    by (simp add: generate_def)
  with e show "\<exists>e. generate_prepare G cfg a = Inl e \<and> (\<forall>fuel. generate G C cfg a fuel = Some (Inl e))"
    by blast
next
  assume "g_max_length a = Some m \<and> g_max_new_tokens a = Some n"
    and "gc_encode G = Inr x \<and> (gc_has_text_image G \<or> gc_has_entity_image G)
          \<and> cfg_decoder_start_token_id cfg = Some d"
  then show "generate_prepare G cfg a =
          Inl (ValueError ''Both `max_new_tokens` and `max_length` have been set'')"
    by (intro generate_prepare_both_lengths_error) auto
next
  fix p
  assume only: "g_max_length a = None \<and> g_max_new_tokens a = Some n"
    and p: "generate_prepare G cfg a = Inr p"
  from generate_prepare_InrD [OF p] obtain sc m0 where
    sc: "get_stopping_criteria (Some (p_max_length p)) (g_max_time a) (g_stopping_criteria a) = Inr sc"
      "bs_stopping_criteria (p_beam_search_args p) = Some sc"
    and m0: "resolve_max_length (g_max_length a) (g_max_new_tokens a) 1 = Inr m0"
      "or_default m0 (cfg_max_length cfg) = Some (p_max_length p)"
    and c: "ncols (p_gen_input_ids p) = 1"
    by blast
  from only m0 have len: "p_max_length p = n + 1"
    by (auto simp: resolve_max_length_def)
  from get_stopping_criteria_max_length [OF sc(1)] len sc(2) c
  show "ncols (p_gen_input_ids p) = 1" 
    and "p_max_length p = n + int (ncols (p_gen_input_ids p))"
    and "\<exists>sc. bs_stopping_criteria (p_beam_search_args p) = Some sc
                \<and> criteria_max_length sc = Some (n + 1)"
    by auto
qed

lemma example_prepare_new_tokens:
  "generate_prepare example_gen_collab example_config (example_gen_args\<lparr>g_max_new_tokens := Some 2\<rparr>) =
     Inr \<lparr> p_gen_input_ids = Mat 1 [[2], [2]], p_context = (),
            p_expanded_context = (), p_beam_scorer = 0,
            p_beam_search_args =
              \<lparr> bs_logits_processor = Some [],
                 bs_stopping_criteria = Some [MaxLengthCriteria 3],
                 bs_max_length = None, bs_pad_token_id = Some 1,
                 bs_eos_token_id = Some 2, bs_output_attentions = None,
                 bs_output_hidden_states = None, bs_output_scores = Some False,
                 bs_return_dict_in_generate = Some False,
                 bs_synced_gpus = Some False, bs_past = None \<rparr>,
            p_max_length = 3, p_min_length = Some 0 \<rparr>"
  by (simp add: generate_prepare_def example_gen_collab_def example_config_def example_gen_args_def
      resolve_max_length_def py_compare_def get_logits_processor_def get_stopping_criteria_def
      merge_criteria_processor_list_def expanded_return_idx_def index_select0_def nrows_def
      float_ne_def upt_rec numeral_2_eq_2)

lemma example_prepare_both:
  "generate_prepare example_gen_collab example_config
       (example_gen_args\<lparr>g_max_new_tokens := Some 2, g_max_length := Some 5\<rparr>) =
     Inl (ValueError ''Both `max_new_tokens` and `max_length` have been set'')"
  by (simp add: generate_prepare_def example_gen_collab_def example_config_def example_gen_args_def
      resolve_max_length_def)

text \<open>Both arguments set, and \<open>max_new_tokens = 2\<close> alone.\<close>

theorem generate_length_arguments_witness:
  "generate example_gen_collab (example_collab (Mat 0 []) 2 1 0) example_config
       (example_gen_args\<lparr>g_max_new_tokens := Some 2, g_max_length := Some 5\<rparr>) 7 =
     Some (Inl (ValueError ''Both `max_new_tokens` and `max_length` have been set''))
   \<and> (\<exists>p. generate_prepare example_gen_collab example_config
              (example_gen_args\<lparr>g_max_new_tokens := Some 2\<rparr>) = Inr p
          \<and> p_max_length p = 2 + 1
          \<and> bs_stopping_criteria (p_beam_search_args p) = Some [MaxLengthCriteria 3])"
proof -
  let ?both = "example_gen_args\<lparr>g_max_new_tokens := Some 2, g_max_length := Some 5\<rparr>"
  let ?only = "example_gen_args\<lparr>g_max_new_tokens := Some 2\<rparr>"
  let ?C = "example_collab (Mat 0 []) 2 1 0"
  have "g_max_length ?both = Some 5 \<and> g_max_new_tokens ?both = Some 2"
    by (simp add: example_gen_args_def)
  with generate_length_arguments
         [where a = ?both and m = 5 and n = 2 and G = example_gen_collab and cfg = example_config
            and C = ?C]
  obtain e where "generate_prepare example_gen_collab example_config ?both = Inl e"
    and "\<forall>fuel. generate example_gen_collab ?C example_config ?both fuel = Some (Inl e)"
    by blast
  with example_prepare_both have first:
    "generate example_gen_collab ?C example_config ?both 7 =
       Some (Inl (ValueError ''Both `max_new_tokens` and `max_length` have been set''))"
    by simp
  have "g_max_length ?only = None \<and> g_max_new_tokens ?only = Some 2"
    by (simp add: example_gen_args_def)
  with generate_length_arguments
         [where a = ?only and n = 2 and G = example_gen_collab and cfg = example_config]
       example_prepare_new_tokens
  have "p_max_length (\<lparr> p_gen_input_ids = Mat 1 [[2], [2]], p_context = (),
            p_expanded_context = (), p_beam_scorer = 0,
            p_beam_search_args =
              \<lparr> bs_logits_processor = Some [],
                 bs_stopping_criteria = Some [MaxLengthCriteria 3],
                 bs_max_length = None, bs_pad_token_id = Some 1,
                 bs_eos_token_id = Some 2, bs_output_attentions = None,
                 bs_output_hidden_states = None, bs_output_scores = Some False,
                 bs_return_dict_in_generate = Some False,
                 bs_synced_gpus = Some False, bs_past = (None :: nat list list list option) \<rparr>,
            p_max_length = 3, p_min_length = Some 0 \<rparr> :: (unit, nat, nat) prepared) = 2 + 1"
    by simp
  with first example_prepare_new_tokens show ?thesis by simp
qed


section \<open>Stopping criteria before the loop\<close>

lemma beam_search_init_no_criteria:
  assumes "bs_max_length a = None"
    and "bs_stopping_criteria a = None \<or> bs_stopping_criteria a = Some []"
    and "c_num_beams C s * c_batch_size C s = nrows ids"
    and "\<not> (truthy (or_default (bs_return_dict_in_generate a) (cfg_return_dict_in_generate cfg))
            \<and> cfg_is_encoder_decoder cfg
            \<and> (truthy (or_default (bs_output_attentions a) (cfg_output_attentions cfg))
                 \<or> truthy (or_default (bs_output_hidden_states a) (cfg_output_hidden_states cfg))))"
  shows "\<exists>env st. beam_search_init C cfg a ids s = Inr (env, st)
           \<and> env_stopping_criteria env = []
           \<and> env_warnings env =
               [''You don't have defined any stopping_criteria, this will likely loop forever'']
           \<and> st_input_ids st = ids \<and> st_clock st = 0"
  using assms by (auto simp: beam_search_init_def Let_def)

text \<open>
  Claim C7, as the code has it. Called without any stopping criterion (no list or an
  empty one, and no \<open>max_length\<close>), \<open>beam_search\<close> only records the warning that it will
  likely loop forever and goes on to its loop, with an empty list of criteria. In
  \<open>generate\<close> the question does not arise: whenever it reaches the search, the list it
  hands over holds a max-length criterion, since a missing maximum length has raised
  before.
\<close>

theorem missing_stopping_criteria:
  "(bs_max_length a = None
      \<and> (bs_stopping_criteria a = None \<or> bs_stopping_criteria a = Some [])
      \<and> c_num_beams C s * c_batch_size C s = nrows ids
      \<and> \<not> (truthy (or_default (bs_return_dict_in_generate a) (cfg_return_dict_in_generate cfg))
            \<and> cfg_is_encoder_decoder cfg
            \<and> (truthy (or_default (bs_output_attentions a) (cfg_output_attentions cfg))
                 \<or> truthy (or_default (bs_output_hidden_states a) (cfg_output_hidden_states cfg))))
     \<longrightarrow> (\<exists>env st. beam_search_init C cfg a ids s = Inr (env, st)
           \<and> env_stopping_criteria env = []
           \<and> env_warnings env =
               [''You don't have defined any stopping_criteria, this will likely loop forever'']))
   \<and> (\<forall>p. generate_prepare G cfg ga = Inr p \<longrightarrow>
         (\<exists>sc. bs_stopping_criteria (p_beam_search_args p) = Some sc
              \<and> MaxLengthCriteria (p_max_length p) \<in> set sc
              \<and> criteria_max_length sc = Some (p_max_length p))
         \<and> bs_max_length (p_beam_search_args p) = None)"
proof (intro conjI impI allI)
  assume "bs_max_length a = None
      \<and> (bs_stopping_criteria a = None \<or> bs_stopping_criteria a = Some [])
      \<and> c_num_beams C s * c_batch_size C s = nrows ids
      \<and> \<not> (truthy (or_default (bs_return_dict_in_generate a) (cfg_return_dict_in_generate cfg))
            \<and> cfg_is_encoder_decoder cfg
            \<and> (truthy (or_default (bs_output_attentions a) (cfg_output_attentions cfg))
                 \<or> truthy (or_default (bs_output_hidden_states a) (cfg_output_hidden_states cfg))))"
  then show "\<exists>env st. beam_search_init C cfg a ids s = Inr (env, st)
           \<and> env_stopping_criteria env = []
           \<and> env_warnings env =
               [''You don't have defined any stopping_criteria, this will likely loop forever'']"
    using beam_search_init_no_criteria [of a C s ids cfg] by blast
next
  fix p assume p: "generate_prepare G cfg ga = Inr p"
  from generate_prepare_InrD [OF p] obtain sc where
    sc: "get_stopping_criteria (Some (p_max_length p)) (g_max_time ga) (g_stopping_criteria ga) = Inr sc"
      "bs_stopping_criteria (p_beam_search_args p) = Some sc"
    and none: "bs_max_length (p_beam_search_args p) = None"
    by blast
  from get_stopping_criteria_max_length [OF sc(1)] sc(2)
  show "\<exists>sc. bs_stopping_criteria (p_beam_search_args p) = Some sc
              \<and> MaxLengthCriteria (p_max_length p) \<in> set sc
              \<and> criteria_max_length sc = Some (p_max_length p)"
    by blast
  from none show "bs_max_length (p_beam_search_args p) = None" .
qed

text \<open>The search called with no criterion, and \<open>generate\<close> with the configured length.\<close>

theorem missing_stopping_criteria_witness:
  "(\<exists>env st. beam_search_init
        (example_collab (Mat 3 [[Fin (- 1), Fin (- 2), Fin (- 3)], [Fin (- 1), Fin (- 2), Fin (- 4)]]) 2 1 0)
        example_config example_bs_args (Mat 1 [[2], [2]]) 0 = Inr (env, st)
      \<and> env_stopping_criteria env = []
      \<and> env_warnings env =
            [''You don't have defined any stopping_criteria, this will likely loop forever''])
   \<and> (\<exists>p sc. generate_prepare example_gen_collab example_config
                (example_gen_args\<lparr>g_max_new_tokens := Some 2\<rparr>) = Inr p
          \<and> bs_stopping_criteria (p_beam_search_args p) = Some sc
          \<and> MaxLengthCriteria 3 \<in> set sc)"
proof -
  let ?C = "example_collab (Mat 3 [[Fin (- 1), Fin (- 2), Fin (- 3)], [Fin (- 1), Fin (- 2), Fin (- 4)]]) 2 1 0"
  let ?ga = "example_gen_args\<lparr>g_max_new_tokens := Some 2\<rparr>"
  note inst = missing_stopping_criteria
      [where a = example_bs_args and C = ?C and s = 0 and ids = "Mat 1 [[2], [2]]"
         and cfg = example_config and G = example_gen_collab and ga = ?ga]
  have pre: "bs_max_length example_bs_args = None
      \<and> (bs_stopping_criteria example_bs_args = None \<or> bs_stopping_criteria example_bs_args = Some [])
      \<and> c_num_beams ?C 0 * c_batch_size ?C 0 = nrows (Mat 1 [[2], [2]])
      \<and> \<not> (truthy (or_default (bs_return_dict_in_generate example_bs_args)
                     (cfg_return_dict_in_generate example_config))
            \<and> cfg_is_encoder_decoder example_config
            \<and> (truthy (or_default (bs_output_attentions example_bs_args)
                          (cfg_output_attentions example_config))
                 \<or> truthy (or_default (bs_output_hidden_states example_bs_args)
                          (cfg_output_hidden_states example_config))))"
    by (simp add: example_bs_args_def example_collab_def example_config_def nrows_def)
  from inst pre have first: "\<exists>env st. beam_search_init ?C example_config example_bs_args (Mat 1 [[2], [2]]) 0
        = Inr (env, st)
      \<and> env_stopping_criteria env = []
      \<and> env_warnings env =
            [''You don't have defined any stopping_criteria, this will likely loop forever'']"
    by blast
  from inst example_prepare_new_tokens
  have "\<exists>p sc. generate_prepare example_gen_collab example_config ?ga = Inr p
          \<and> bs_stopping_criteria (p_beam_search_args p) = Some sc
          \<and> MaxLengthCriteria 3 \<in> set sc"
    by simp
  with first show ?thesis by blast
qed

text \<open>
  Claim C7 as stated fails: a search with no stopping criterion at all starts its loop
  and, with a scorer that reports done after two steps, returns its sequences.
\<close>

theorem missing_stopping_criteria_counterexample:
  "bs_stopping_criteria example_bs_args = None \<and> bs_max_length example_bs_args = None
   \<and> beam_search
        (example_collab (Mat 3 [[Fin (- 1), Fin (- 2), Fin (- 3)], [Fin (- 1), Fin (- 2), Fin (- 4)]]) 2 2 0)
        example_config example_bs_args () (Mat 1 [[2], [2]]) 0 5
      = Some (Inr (Mat 3 [[2, 0, 0], [2, 0, 1]]))"
  by code_simp


section \<open>beam\_search: leaving the loop\<close>

text \<open>
  Claim C4, as the code has it. Take a pass of the loop in which the model gives scores
  and the expansion step succeeds. Without \<open>synced_gpus\<close>, the pass leaves the loop exactly
  when the beam scorer reports done or a stopping criterion fires on the new variables,
  and otherwise the loop goes into its next pass. With \<open>synced_gpus\<close>, the same
  disjunction only marks this peer as finished and the loop goes on; it is left at the
  head of a pass in which the reduction over the peers' flags gives zero.
\<close>

theorem loop_terminates_on_done_or_criterion:
  assumes scores: "c_model_scores C ctx (st_input_ids st) = Inr sc"
    and step: "expansion_step C env (st\<lparr> st_clock := st_clock st + 1 \<rparr>) sc = Inr st'"
  shows "(\<not> env_synced_gpus env \<longrightarrow>
            loop_iteration C env ctx st =
              Inr (if c_is_done C (st_scorer st')
                      \<or> stopping_criteria_call (c_criterion C) (env_stopping_criteria env)
                           (st_clock st') (st_input_ids st') (st_scores st')
                   then Break st' else Continue st')
          \<and> while_true C env ctx (Suc fuel) st =
              (if c_is_done C (st_scorer st')
                      \<or> stopping_criteria_call (c_criterion C) (env_stopping_criteria env)
                           (st_clock st') (st_input_ids st') (st_scores st')
               then Some (Inr st') else while_true C env ctx fuel st'))
       \<and> (env_synced_gpus env \<and> \<not> st_this_peer_finished st
            \<and> c_all_reduce C (st_clock st + 1) 1 = Inr (Suc others) \<longrightarrow>
            loop_iteration C env ctx st =
              Inr (Continue
                (if c_is_done C (st_scorer st')
                      \<or> stopping_criteria_call (c_criterion C) (env_stopping_criteria env)
                           (st_clock st') (st_input_ids st') (st_scores st')
                 then st'\<lparr> st_this_peer_finished := True \<rparr> else st')))
       \<and> (env_synced_gpus env
            \<and> c_all_reduce C (st_clock st + 1) (if st_this_peer_finished st then 0 else 1) = Inr 0 \<longrightarrow>
            loop_iteration C env ctx st = Inr (Break (st\<lparr> st_clock := st_clock st + 1 \<rparr>)))"
  using scores step
  by (auto simp: loop_iteration_def termination_check_def Let_def)



lemma example_step:
  "expansion_step (example_collab example_scores 2 5 0) (example_env [MaxLengthCriteria 3] False)
      (example_state\<lparr> st_clock := st_clock example_state + 1 \<rparr>) example_scores
     = Inr example_state_1"
  by code_simp

text \<open>
  A search whose only criterion is a maximum length of three: the first pass ends with
  two tokens per row and goes on.
\<close>

theorem loop_terminates_witness:
  "loop_iteration (example_collab example_scores 2 5 0) (example_env [MaxLengthCriteria 3] False) ()
      example_state = Inr (Continue example_state_1)
   \<and> while_true (example_collab example_scores 2 5 0) (example_env [MaxLengthCriteria 3] False) ()
      (Suc 4) example_state
     = while_true (example_collab example_scores 2 5 0) (example_env [MaxLengthCriteria 3] False) ()
      4 example_state_1"
proof -
  let ?C = "example_collab example_scores 2 5 0"
  let ?env = "example_env [MaxLengthCriteria 3] False"
  have scores: "c_model_scores ?C () (st_input_ids example_state) = Inr example_scores"
    by (simp add: example_collab_def)
  have cond: "\<not> (c_is_done ?C (st_scorer example_state_1)
      \<or> stopping_criteria_call (c_criterion ?C) (env_stopping_criteria ?env)
           (st_clock example_state_1) (st_input_ids example_state_1) (st_scores example_state_1))"
    by (simp add: example_collab_def example_env_def example_state_1_def stopping_criteria_call_def)
  have sync: "\<not> env_synced_gpus ?env"
    by (simp add: example_env_def)
  from loop_terminates_on_done_or_criterion [OF scores example_step, where fuel = 4] cond sync
  show ?thesis by simp
qed

text \<open>
  Claim C4 as stated fails under \<open>synced_gpus\<close>: with a peer that never finishes, the
  scorer reports done after the first step, and the loop does not end; it marks this peer
  finished, goes on, and is still running after five passes.
\<close>

theorem loop_terminates_counterexample:
  "c_is_done (example_collab example_scores 2 1 1) (st_scorer example_state_1)
   \<and> loop_iteration (example_collab example_scores 2 1 1) (example_env [] True) () example_state
      = Inr (Continue (example_state_1\<lparr> st_this_peer_finished := True \<rparr>))
   \<and> while_true (example_collab example_scores 2 1 1) (example_env [] True) () 5 example_state = None"
  by code_simp



section \<open>Scores that are not finite\<close>

lemma remove_invalid_values_not_registered:
  assumes run: "get_logits_processor check cfg a = Inr ps"
    and off: "or_default (lp_remove_invalid_values a) (cfg_remove_invalid_values cfg) \<noteq> Some True"
  shows "\<exists>custom. lp_logits_processor a = Some custom
       \<and> (InfNanRemoveLogitsProcessor \<in> set ps \<longrightarrow> InfNanRemoveLogitsProcessor \<in> set custom)"
proof -
  from get_logits_processor_returns [where a = a and check = check and cfg = cfg] run
  obtain defaults custom where
    "ps = defaults @ custom @ (if lp_renormalize_logits a = Some True then [LogitNormalization] else [])"
    "lp_logits_processor a = Some custom"
    "InfNanRemoveLogitsProcessor \<in> set defaults \<longrightarrow>
       or_default (lp_remove_invalid_values a) (cfg_remove_invalid_values cfg) = Some True"
    unfolding returns_def by blast
  with off show ?thesis by auto
qed

lemma expansion_step_result:
  assumes proc: "logits_processor_call (c_apply_processor C) (env_logits_processor env) (st_input_ids st) sc
        = Inr processed"
    and add: "add_beam_scores processed (st_beam_scores st) sc = Inr m"
    and plain: "\<not> env_return_dict_in_generate env"
    and cand: "select_candidates (c_topk_kernel C) (env_batch_size env) (env_num_beams env) m
        = Inr (vals, toks, idxs)"
    and process: "c_process C (st_scorer st) (st_input_ids st) vals toks idxs (env_pad_token_id env)
        (env_eos_token_id env) (st_beam_indices st) = Inr (scorer', outs)"
    and rows: "index_rows (st_input_ids st) (next_beam_indices outs) = Inr selected"
    and cat: "cat_column selected (next_beam_tokens outs) = Inr ids'"
    and past: "st_past st = None"
  shows "expansion_step C env st sc =
      Inr (st\<lparr> st_input_ids := ids',
               st_beam_scores := next_beam_scores outs,
               st_scorer := scorer',
               st_past := None,
               st_cur_len := st_cur_len st + 1,
               st_scores := st_scores st,
               st_beam_indices := st_beam_indices st,
               st_next_tokens := Some toks,
               st_next_indices := Some idxs \<rparr>)"
  using assms by (simp add: expansion_step_def Let_def split: option.splits)

text \<open>
  Claim C6, as the code has it. When \<open>remove_invalid_values\<close> is not enabled,
  \<open>_get_logits_processor\<close> registers no rule that removes invalid values (the chain holds
  one only if the caller supplied it). The step then adds the beam scores to the
  processed scores entry by entry, so that an entry that is NaN or infinite stays
  non-finite, and hands the sums to the selection of candidates: whenever the selection,
  the beam scorer and the gathering of the token rows succeed, the step succeeds with
  the variables they determine. No test of finiteness stands between the scores and the
  result, and no error is raised on their account.
\<close>

theorem non_finite_scores_are_not_detected:
  "(get_logits_processor check cfg a = Inr ps
      \<and> or_default (lp_remove_invalid_values a) (cfg_remove_invalid_values cfg) \<noteq> Some True
     \<longrightarrow> (\<exists>custom. lp_logits_processor a = Some custom
           \<and> (InfNanRemoveLogitsProcessor \<in> set ps \<longrightarrow> InfNanRemoveLogitsProcessor \<in> set custom)))
   \<and> (logits_processor_call (c_apply_processor C) (env_logits_processor env) (st_input_ids st) sc
          = Inr processed
      \<and> wf_mat processed \<and> nrows processed = nrows sc \<and> ncols processed = ncols sc
      \<and> length (st_beam_scores st) = nrows sc
      \<and> \<not> env_return_dict_in_generate env \<and> st_past st = None
     \<longrightarrow> (\<exists>m. add_beam_scores processed (st_beam_scores st) sc = Inr m
           \<and> (\<forall>i < nrows m. \<forall>j < ncols m.
                 rows m ! i ! j = fadd (rows processed ! i ! j) (st_beam_scores st ! i)
               \<and> (\<not> is_finite (rows processed ! i ! j) \<longrightarrow> \<not> is_finite (rows m ! i ! j)))
           \<and> (\<forall>vals toks idxs scorer' outs selected ids'.
                 select_candidates (c_topk_kernel C) (env_batch_size env) (env_num_beams env) m
                   = Inr (vals, toks, idxs)
               \<and> c_process C (st_scorer st) (st_input_ids st) vals toks idxs (env_pad_token_id env)
                    (env_eos_token_id env) (st_beam_indices st) = Inr (scorer', outs)
               \<and> index_rows (st_input_ids st) (next_beam_indices outs) = Inr selected
               \<and> cat_column selected (next_beam_tokens outs) = Inr ids'
               \<longrightarrow> expansion_step C env st sc =
                     Inr (st\<lparr> st_input_ids := ids',
                              st_beam_scores := next_beam_scores outs,
                              st_scorer := scorer',
                              st_past := None,
                              st_cur_len := st_cur_len st + 1,
                              st_scores := st_scores st,
                              st_beam_indices := st_beam_indices st,
                              st_next_tokens := Some toks,
                              st_next_indices := Some idxs \<rparr>))))"
proof (intro conjI impI)
  assume "get_logits_processor check cfg a = Inr ps
      \<and> or_default (lp_remove_invalid_values a) (cfg_remove_invalid_values cfg) \<noteq> Some True"
  then show "\<exists>custom. lp_logits_processor a = Some custom
           \<and> (InfNanRemoveLogitsProcessor \<in> set ps \<longrightarrow> InfNanRemoveLogitsProcessor \<in> set custom)"
    using remove_invalid_values_not_registered [of check cfg a ps] by blast
next
  assume h: "logits_processor_call (c_apply_processor C) (env_logits_processor env) (st_input_ids st) sc
          = Inr processed
      \<and> wf_mat processed \<and> nrows processed = nrows sc \<and> ncols processed = ncols sc
      \<and> length (st_beam_scores st) = nrows sc
      \<and> \<not> env_return_dict_in_generate env \<and> st_past st = None"
  then obtain m where m: "add_beam_scores processed (st_beam_scores st) sc = Inr m"
    and ent: "\<forall>i < nrows m. \<forall>j < ncols m.
                 rows m ! i ! j = fadd (rows processed ! i ! j) (st_beam_scores st ! i)
               \<and> (\<not> is_finite (rows processed ! i ! j) \<longrightarrow> \<not> is_finite (rows m ! i ! j))"
    using add_beam_scores_entries [of processed sc "st_beam_scores st"] by blast
  have "expansion_step C env st sc =
                     Inr (st\<lparr> st_input_ids := ids',
                              st_beam_scores := next_beam_scores outs,
                              st_scorer := scorer',
                              st_past := None,
                              st_cur_len := st_cur_len st + 1,
                              st_scores := st_scores st,
                              st_beam_indices := st_beam_indices st,
                              st_next_tokens := Some toks,
                              st_next_indices := Some idxs \<rparr>)"
    if "select_candidates (c_topk_kernel C) (env_batch_size env) (env_num_beams env) m
                   = Inr (vals, toks, idxs)"
      and "c_process C (st_scorer st) (st_input_ids st) vals toks idxs (env_pad_token_id env)
                    (env_eos_token_id env) (st_beam_indices st) = Inr (scorer', outs)"
      and "index_rows (st_input_ids st) (next_beam_indices outs) = Inr selected"
      and "cat_column selected (next_beam_tokens outs) = Inr ids'"
    for vals toks idxs scorer' outs selected ids'
    using h m that by (intro expansion_step_result) auto
  with m ent show "\<exists>m. add_beam_scores processed (st_beam_scores st) sc = Inr m
           \<and> (\<forall>i < nrows m. \<forall>j < ncols m.
                 rows m ! i ! j = fadd (rows processed ! i ! j) (st_beam_scores st ! i)
               \<and> (\<not> is_finite (rows processed ! i ! j) \<longrightarrow> \<not> is_finite (rows m ! i ! j)))
           \<and> (\<forall>vals toks idxs scorer' outs selected ids'.
                 select_candidates (c_topk_kernel C) (env_batch_size env) (env_num_beams env) m
                   = Inr (vals, toks, idxs)
               \<and> c_process C (st_scorer st) (st_input_ids st) vals toks idxs (env_pad_token_id env)
                    (env_eos_token_id env) (st_beam_indices st) = Inr (scorer', outs)
               \<and> index_rows (st_input_ids st) (next_beam_indices outs) = Inr selected
               \<and> cat_column selected (next_beam_tokens outs) = Inr ids'
               \<longrightarrow> expansion_step C env st sc =
                     Inr (st\<lparr> st_input_ids := ids',
                              st_beam_scores := next_beam_scores outs,
                              st_scorer := scorer',
                              st_past := None,
                              st_cur_len := st_cur_len st + 1,
                              st_scores := st_scores st,
                              st_beam_indices := st_beam_indices st,
                              st_next_tokens := Some toks,
                              st_next_indices := Some idxs \<rparr>))"
    by blast
qed


text \<open>
  One step on scores that hold an infinity and a row of NaN, with the rule chain of a
  configuration that does not enable \<open>remove_invalid_values\<close>.
\<close>

theorem non_finite_scores_witness:
  "InfNanRemoveLogitsProcessor \<notin> set
      [RepetitionPenaltyLogitsProcessor (Fin (6 / 5)), NoRepeatNGramLogitsProcessor 3,
       MinLengthLogitsProcessor 5 2, ForcedEOSTokenLogitsProcessor (Some 20) 2,
       CustomProcessor 7, LogitNormalization]
   \<and> expansion_step (example_collab example_scores_nan 2 1 0) (example_env [] False) example_state
        example_scores_nan
      = Inr (example_state\<lparr> st_input_ids := Mat 2 [[2, 0], [2, 1]],
               st_beam_scores := [NaN, NaN],
               st_scorer := 1,
               st_past := None,
               st_cur_len := st_cur_len example_state + 1,
               st_scores := st_scores example_state,
               st_beam_indices := st_beam_indices example_state,
               st_next_tokens := Some (Mat 4 [[0, 1, 2, 0]]),
               st_next_indices := Some (Mat 4 [[1, 1, 1, 0]]) \<rparr>)"
proof -
  let ?C = "example_collab example_scores_nan 2 1 0"
  let ?env = "example_env [] False"
  let ?outs = "\<lparr> next_beam_scores = [NaN, NaN], next_beam_tokens = [0, 1], next_beam_indices = [1, 1] \<rparr>"
  note inst = non_finite_scores_are_not_detected
      [where check = "\<lambda>p. None" and cfg = example_config and a = example_lp_args
         and ps = "[RepetitionPenaltyLogitsProcessor (Fin (6 / 5)), NoRepeatNGramLogitsProcessor 3,
                    MinLengthLogitsProcessor 5 2, ForcedEOSTokenLogitsProcessor (Some 20) 2,
                    CustomProcessor 7, LogitNormalization]"
         and C = ?C and env = ?env and st = example_state and sc = example_scores_nan
         and processed = example_scores_nan]
  have off: "or_default (lp_remove_invalid_values example_lp_args) (cfg_remove_invalid_values example_config)
      \<noteq> Some True"
    by (simp add: example_lp_args_def example_config_def)
  from inst example_chain off have first:
    "InfNanRemoveLogitsProcessor \<notin> set
      [RepetitionPenaltyLogitsProcessor (Fin (6 / 5)), NoRepeatNGramLogitsProcessor 3,
       MinLengthLogitsProcessor 5 2, ForcedEOSTokenLogitsProcessor (Some 20) 2,
       CustomProcessor 7, LogitNormalization]"
    by simp
  have pre: "logits_processor_call (c_apply_processor ?C) (env_logits_processor ?env)
        (st_input_ids example_state) example_scores_nan = Inr example_scores_nan
      \<and> wf_mat example_scores_nan \<and> nrows example_scores_nan = nrows example_scores_nan
      \<and> ncols example_scores_nan = ncols example_scores_nan
      \<and> length (st_beam_scores example_state) = nrows example_scores_nan
      \<and> \<not> env_return_dict_in_generate ?env \<and> st_past example_state = None"
    by (simp add: example_env_def example_state_def example_scores_nan_def wf_mat_def nrows_def)
  have add: "add_beam_scores example_scores_nan (st_beam_scores example_state) example_scores_nan
      = Inr example_scores_nan"
    by code_simp
  have cand: "select_candidates (c_topk_kernel ?C) (env_batch_size ?env) (env_num_beams ?env)
        example_scores_nan
      = Inr (Mat 4 [[NaN, NaN, NaN, Fin (- 1)]], Mat 4 [[0, 1, 2, 0]], Mat 4 [[1, 1, 1, 0]])"
    by code_simp
  have process: "c_process ?C (st_scorer example_state) (st_input_ids example_state)
        (Mat 4 [[NaN, NaN, NaN, Fin (- 1)]]) (Mat 4 [[0, 1, 2, 0]]) (Mat 4 [[1, 1, 1, 0]])
        (env_pad_token_id ?env) (env_eos_token_id ?env) (st_beam_indices example_state)
      = Inr (1, ?outs)"
    by (simp add: example_collab_def example_process_def example_state_def)
  have rows: "index_rows (st_input_ids example_state) (next_beam_indices ?outs) = Inr (Mat 1 [[2], [2]])"
    by (simp add: index_rows_def py_index_def example_state_def)
  have cat: "cat_column (Mat 1 [[2], [2]]) (next_beam_tokens ?outs) = Inr (Mat 2 [[2, 0], [2, 1]])"
    by (simp add: cat_column_def nrows_def)
  from inst pre add have
    "\<forall>vals toks idxs scorer' outs selected ids'.
        select_candidates (c_topk_kernel ?C) (env_batch_size ?env) (env_num_beams ?env) example_scores_nan
          = Inr (vals, toks, idxs)
      \<and> c_process ?C (st_scorer example_state) (st_input_ids example_state) vals toks idxs
           (env_pad_token_id ?env) (env_eos_token_id ?env) (st_beam_indices example_state)
          = Inr (scorer', outs)
      \<and> index_rows (st_input_ids example_state) (next_beam_indices outs) = Inr selected
      \<and> cat_column selected (next_beam_tokens outs) = Inr ids'
      \<longrightarrow> expansion_step ?C ?env example_state example_scores_nan =
            Inr (example_state\<lparr> st_input_ids := ids',
                     st_beam_scores := next_beam_scores outs,
                     st_scorer := scorer',
                     st_past := None,
                     st_cur_len := st_cur_len example_state + 1,
                     st_scores := st_scores example_state,
                     st_beam_indices := st_beam_indices example_state,
                     st_next_tokens := Some toks,
                     st_next_indices := Some idxs \<rparr>)"
    by auto
  from this [rule_format, OF conjI [OF cand conjI [OF process conjI [OF rows cat]]]] first
  show ?thesis by simp
qed

text \<open>
  Claim C6 as stated fails: with \<open>remove_invalid_values\<close> off in the arguments and in the
  configuration, a call of \<open>generate\<close> whose scores hold an infinity and NaN returns its
  sequences; the candidates with NaN scores are the ones it keeps.
\<close>

theorem non_finite_scores_counterexample:
  "or_default (g_remove_invalid_values example_gen_args) (cfg_remove_invalid_values example_config)
      = Some False
   \<and> \<not> is_finite (rows example_scores_nan ! 0 ! 2) \<and> \<not> is_finite (rows example_scores_nan ! 1 ! 0)
   \<and> generate example_gen_collab (example_collab example_scores_nan 2 1 0) example_config
        example_gen_args 5
      = Some (Inr (Mat 2 [[2, 0], [2, 1]], ()))"
  by code_simp


end
